theory Spec2Isabelle
  imports Complex_Main "HOL-Library.Monad_Syntax"
begin

section \<open>Tensors, errors and the primitives of the tensor library\<close>

text \<open>
  The two source files, \<^verbatim>\<open>examples/clip/model.py\<close> and \<^verbatim>\<open>examples/clip/model_mlx.py\<close>,
  wire blocks of the tensor library into the CLIP towers. A block is modelled by the function
  it computes on its inputs. Tensors are nested lists (a matrix is the list of its rows) and
  their entries are real numbers, so rounding is not modelled. The shape annotations of the
  \<^verbatim>\<open>IOKey\<close> declarations (2048 channels, 77 positions and so on) are not part of the
  definitions, which work at every size.

  Building a block can raise a Python exception: a builder returns \<open>py_error + block\<close> with
  the exception on the left. Evaluating a block can fail inside the tensor library (a reshape
  that does not fit, an index out of range): an evaluation returns an \<open>option\<close>, and
  \<open>None\<close> is such a failure.
\<close>

datatype py_error = AssertionError | NameError | TypeError | ZeroDivisionError

type_synonym vec = "real list"
type_synonym mat = "real list list"
type_synonym tensor3 = "real list list list"
type_synonym tensor4 = "real list list list list"

subsection \<open>Vectors and matrices\<close>

definition dot :: "vec \<Rightarrow> vec \<Rightarrow> real" where
  "dot xs ys = sum_list (map2 (*) xs ys)"

text \<open>\<^verbatim>\<open>a @ b\<close> for two matrices; \<^verbatim>\<open>b.transpose()\<close> is \<open>transpose b\<close>.\<close>

definition matmul :: "mat \<Rightarrow> mat \<Rightarrow> mat" where
  "matmul a b = map (\<lambda>row. map (dot row) (transpose b)) a"

definition matmul3 :: "tensor3 \<Rightarrow> mat \<Rightarrow> tensor3" where
  "matmul3 x w = map (\<lambda>rows. matmul rows w) x"

text \<open>\<^verbatim>\<open>x + b\<close> for a vector \<open>b\<close> added to every vector of the last axis.\<close>

definition add_bias3 :: "tensor3 \<Rightarrow> vec \<Rightarrow> tensor3" where
  "add_bias3 x b = map (map (\<lambda>v. map2 (+) v b)) x"

text \<open>\<^verbatim>\<open>x * c\<close> for a scalar \<open>c\<close>.\<close>

definition scale3 :: "tensor3 \<Rightarrow> real \<Rightarrow> tensor3" where
  "scale3 x c = map (map (map (\<lambda>a. a * c))) x"

text \<open>\<^verbatim>\<open>x + y\<close> for two tensors of one shape.\<close>

definition add3 :: "tensor3 \<Rightarrow> tensor3 \<Rightarrow> tensor3" where
  "add3 x y = map2 (map2 (map2 (+))) x y"

text \<open>\<^verbatim>\<open>xs[lo:hi]\<close> for indices that are not negative.\<close>

definition slice :: "nat \<Rightarrow> nat \<Rightarrow> 'a list \<Rightarrow> 'a list" where
  "slice lo hi xs = take (hi - lo) (drop lo xs)"

text \<open>\<^verbatim>\<open>x.shape[1]\<close> and \<^verbatim>\<open>x.shape[2]\<close>, read off the first entries.\<close>

definition shape_1 :: "'a list list \<Rightarrow> nat" where
  "shape_1 x = (case x of [] \<Rightarrow> 0 | r # _ \<Rightarrow> length r)"

definition shape_2 :: "'a list list list \<Rightarrow> nat" where
  "shape_2 x = (case x of [] \<Rightarrow> 0 | r # _ \<Rightarrow> shape_1 r)"

text \<open>
  A reshape that splits the last axis into \<open>n\<close> equal parts, \<^verbatim>\<open>reshape((..., n, -1))\<close>.
  The tensor library rejects it when the length of the axis is not a multiple of \<open>n\<close>.
\<close>

definition split_last :: "nat \<Rightarrow> 'a list \<Rightarrow> 'a list list option" where
  "split_last n xs =
     (if n = 0 \<or> length xs mod n \<noteq> 0 then None
      else Some (map (\<lambda>i. take (length xs div n) (drop (i * (length xs div n)) xs)) [0..<n]))"

text \<open>\<^verbatim>\<open>x.reshape((B, L, n, -1))\<close> for \<open>x\<close> of shape \<open>(B, L, D)\<close>.\<close>

definition reshape_B_L_n :: "nat \<Rightarrow> 'a list list list \<Rightarrow> 'a list list list list option" where
  "reshape_B_L_n n x = those (map (\<lambda>rows. those (map (split_last n) rows)) x)"

text \<open>\<^verbatim>\<open>x.reshape((B, L, n, -1)).transpose((0, 2, 1, 3))\<close>: the heads move before the sequence.\<close>

definition split_heads :: "nat \<Rightarrow> tensor3 \<Rightarrow> tensor4 option" where
  "split_heads n x = map_option (map transpose) (reshape_B_L_n n x)"

text \<open>\<^verbatim>\<open>x.transpose((0, 2, 1, 3)).reshape((B, L, -1))\<close>: the heads are merged again.\<close>

definition merge_heads :: "tensor4 \<Rightarrow> tensor3" where
  "merge_heads x = map (\<lambda>heads. map concat (transpose heads)) x"

subsection \<open>Linear\<close>

text \<open>
  Modelled from the spec: the \<^verbatim>\<open>Linear\<close> layer of the tensor library, an affine map of the
  last axis, \<open>x W\<^sup>t + b\<close>. Its weight (one row per output feature) and bias are parameters
  of the model; they are taken to have the shape the layer declares.
\<close>

definition Linear :: "mat \<Rightarrow> vec \<Rightarrow> vec \<Rightarrow> vec" where
  "Linear weight bias x = map2 (+) (map (dot x) weight) bias"

definition Linear_nobias :: "mat \<Rightarrow> vec \<Rightarrow> vec" where
  "Linear_nobias weight x = map (dot x) weight"

subsection \<open>ScaledDotProduct\<close>

text \<open>
  An additive attention mask holds \<open>0\<close> or \<open>-\<infinity>\<close>, so a masked score is a real or
  \<open>-\<infinity>\<close>; the exponential of \<open>-\<infinity>\<close> is \<open>0\<close>.
\<close>

datatype xreal = Fin real | NegInf

fun add_mask :: "real \<Rightarrow> xreal \<Rightarrow> xreal" where
  "add_mask s (Fin m) = Fin (s + m)"
| "add_mask s NegInf = NegInf"

fun exp_x :: "xreal \<Rightarrow> real" where
  "exp_x (Fin s) = exp s"
| "exp_x NegInf = 0"

definition Softmax :: "xreal list \<Rightarrow> vec" where
  "Softmax row = map (\<lambda>s. exp_x s / sum_list (map exp_x row)) row"

definition has_shape :: "nat \<Rightarrow> nat \<Rightarrow> 'a list list \<Rightarrow> bool" where
  "has_shape rows cols m = (length m = rows \<and> list_all (\<lambda>r. length r = cols) m)"

text \<open>
  Modelled from the spec: the \<^verbatim>\<open>ScaledDotProduct\<close> primitive of the tensor library,
  the platform's attention primitive that applies the division by \<open>sqrt(head_dim)\<close>
  internally. For one head it computes the weights \<open>softmax(Q K\<^sup>t / sqrt d + mask)\<close>, with
  \<open>d\<close> the length of a query vector, and returns their product with the values. A mask
  whose shape is not that of the scores is rejected.
\<close>

definition sdp_weights :: "mat \<Rightarrow> mat \<Rightarrow> xreal list list option \<Rightarrow> mat option" where
  "sdp_weights query key attn_mask =
     (let scores = map (\<lambda>q. map (\<lambda>k. dot q k / sqrt (real (length q))) key) query
      in (case attn_mask of
            None \<Rightarrow> Some (map (\<lambda>row. Softmax (map Fin row)) scores)
          | Some msk \<Rightarrow>
              if has_shape (length query) (length key) msk
              then Some (map (\<lambda>(row, bias). Softmax (map2 add_mask row bias)) (zip scores msk))
              else None))"

definition ScaledDotProduct :: "mat \<Rightarrow> mat \<Rightarrow> mat \<Rightarrow> xreal list list option \<Rightarrow> mat option" where
  "ScaledDotProduct query key val attn_mask =
     map_option (\<lambda>weights. matmul weights val) (sdp_weights query key attn_mask)"

definition zip3 :: "'a list \<Rightarrow> 'b list \<Rightarrow> 'c list \<Rightarrow> ('a \<times> 'b \<times> 'c) list" where
  "zip3 xs ys zs = zip xs (zip ys zs)"

text \<open>The primitive on a batch of heads, and on a batch of batches of heads.\<close>

definition ScaledDotProduct3 ::
  "tensor3 \<Rightarrow> tensor3 \<Rightarrow> tensor3 \<Rightarrow> xreal list list option \<Rightarrow> tensor3 option" where
  "ScaledDotProduct3 query key val attn_mask =
     those (map (\<lambda>(q, k, v). ScaledDotProduct q k v attn_mask) (zip3 query key val))"

definition ScaledDotProduct4 ::
  "tensor4 \<Rightarrow> tensor4 \<Rightarrow> tensor4 \<Rightarrow> xreal list list option \<Rightarrow> tensor4 option" where
  "ScaledDotProduct4 query key val attn_mask =
     those (map (\<lambda>(q, k, v). ScaledDotProduct3 q k v attn_mask) (zip3 query key val))"

subsection \<open>ArgMax\<close>

text \<open>
  Modelled from the spec: \<^verbatim>\<open>ArgMax(axis=-1)\<close> of the tensor library. Per row it gives
  the index of the largest entry (the first one when the maximum occurs more than once); a
  row without entries has no argmax.
\<close>

definition argmax :: "int list \<Rightarrow> nat" where
  "argmax xs = length (takeWhile (\<lambda>x. x \<noteq> fold max xs (hd xs)) xs)"

definition ArgMax :: "int list list \<Rightarrow> nat list option" where
  "ArgMax tokens = (if list_ex (\<lambda>row. row = []) tokens then None else Some (map argmax tokens))"

subsection \<open>Sum and Max\<close>

text \<open>
  The reducers take an axis and a \<^verbatim>\<open>keepdim\<close> flag, and what they return has a rank
  that depends on both. For them a tensor of any rank is a tree: a scalar, or the array of
  its sub-tensors along the first axis.
\<close>

datatype tensor = Sc real | Ar "tensor list"

fun tmap :: "(real \<Rightarrow> real) \<Rightarrow> tensor \<Rightarrow> tensor" where
  "tmap f (Sc x) = Sc (f x)"
| "tmap f (Ar ts) = Ar (map (tmap f) ts)"

fun ndim :: "tensor \<Rightarrow> nat" where
  "ndim (Sc x) = 0"
| "ndim (Ar []) = 1"
| "ndim (Ar (t # ts)) = Suc (ndim t)"

fun entries :: "tensor \<Rightarrow> real list" where
  "entries (Sc x) = [x]"
| "entries (Ar ts) = concat (map entries ts)"

text \<open>Two tensors of one shape combined entry by entry.\<close>

fun tzip :: "(real \<Rightarrow> real \<Rightarrow> real) \<Rightarrow> tensor \<Rightarrow> tensor \<Rightarrow> tensor option" where
  "tzip f (Sc x) (Sc y) = Some (Sc (f x y))"
| "tzip f (Ar []) (Ar []) = Some (Ar [])"
| "tzip f (Ar (s # ss)) (Ar (t # ts)) =
     (case (tzip f s t, tzip f (Ar ss) (Ar ts)) of
        (Some u, Some (Ar us)) \<Rightarrow> Some (Ar (u # us))
      | _ \<Rightarrow> None)"
| "tzip f _ _ = None"

text \<open>
  The sub-tensors along one axis folded with a binary operation. A tree does not record the
  shape under an axis of length zero, so reducing along such an axis is left undefined.
\<close>

fun reduce_list :: "(real \<Rightarrow> real \<Rightarrow> real) \<Rightarrow> tensor list \<Rightarrow> tensor option" where
  "reduce_list f [] = None"
| "reduce_list f [t] = Some t"
| "reduce_list f (t # u # ts) =
     (case tzip f t u of None \<Rightarrow> None | Some r \<Rightarrow> reduce_list f (r # ts))"

fun keep :: "nat \<Rightarrow> tensor \<Rightarrow> tensor" where
  "keep 0 t = t"
| "keep (Suc n) t = Ar [keep n t]"

fun reduce_axis :: "(real \<Rightarrow> real \<Rightarrow> real) \<Rightarrow> bool \<Rightarrow> nat \<Rightarrow> tensor \<Rightarrow> tensor option" where
  "reduce_axis f keepdim k (Sc x) = None"
| "reduce_axis f keepdim 0 (Ar ts) =
     map_option (\<lambda>r. if keepdim then Ar [r] else r) (reduce_list f ts)"
| "reduce_axis f keepdim (Suc k) (Ar ts) =
     map_option Ar (those (map (reduce_axis f keepdim k) ts))"

text \<open>
  Modelled from the spec: the reducers \<^verbatim>\<open>Sum(axis, keepdim)\<close> and \<^verbatim>\<open>Max(axis, keepdim)\<close>
  of the tensor library. Without an axis every entry is reduced; a negative axis counts from
  the last one; \<^verbatim>\<open>keepdim\<close> leaves the reduced axes in place with length one.
\<close>

definition reduce ::
  "(real \<Rightarrow> real \<Rightarrow> real) \<Rightarrow> int option \<Rightarrow> bool \<Rightarrow> tensor \<Rightarrow> tensor option" where
  "reduce f axis keepdim t =
     (case axis of
        None \<Rightarrow> map_option (\<lambda>r. if keepdim then keep (ndim t) r else r)
                  (reduce_list f (map Sc (entries t)))
      | Some a \<Rightarrow>
          (let n = int (ndim t); k = (if a < 0 then a + n else a)
           in if 0 \<le> k \<and> k < n then reduce_axis f keepdim (nat k) t else None))"

definition Sum :: "int option \<Rightarrow> bool \<Rightarrow> tensor \<Rightarrow> tensor option" where
  "Sum axis keepdim = reduce (+) axis keepdim"

definition Max_t :: "int option \<Rightarrow> bool \<Rightarrow> tensor \<Rightarrow> tensor option" where
  "Max_t axis keepdim = reduce max axis keepdim"

text \<open>Matrices as trees and back.\<close>

definition of_mat :: "mat \<Rightarrow> tensor" where
  "of_mat m = Ar (map (\<lambda>row. Ar (map Sc row)) m)"

fun to_vec :: "tensor \<Rightarrow> vec option" where
  "to_vec (Sc x) = None"
| "to_vec (Ar ts) = those (map (\<lambda>t. case t of Sc x \<Rightarrow> Some x | Ar us \<Rightarrow> None) ts)"

fun to_mat :: "tensor \<Rightarrow> mat option" where
  "to_mat (Sc x) = None"
| "to_mat (Ar ts) = those (map to_vec ts)"

section \<open>model.py\<close>

subsection \<open>\<^verbatim>\<open>quick_gelu\<close>\<close>

definition quick_gelu :: "real \<Rightarrow> real" where
  "quick_gelu input = (let sigmoid = 1 / (1 + exp (- (1.702 * input))) in input * sigmoid)"

subsection \<open>\<^verbatim>\<open>multi_head_attention\<close>\<close>

text \<open>The weights of the layers \<^verbatim>\<open>in_proj\<close> and \<^verbatim>\<open>out_proj\<close>.\<close>

record mha_params =
  in_proj_w :: mat
  in_proj_b :: vec
  out_w :: mat
  out_b :: vec

text \<open>
  The builder asserts \<^verbatim>\<open>d_model % n_head == 0\<close>; with \<open>n_head = 0\<close> the remainder itself
  raises. The block it returns takes \<open>queries\<close> of shape \<open>(B, L, D)\<close> and the mask, which
  it reads only under \<^verbatim>\<open>use_attn_mask\<close>. The projected queries go to the attention
  primitive as they are.
\<close>

definition multi_head_attention ::
  "mha_params \<Rightarrow> int \<Rightarrow> int \<Rightarrow> bool \<Rightarrow>
   py_error + (tensor3 \<Rightarrow> xreal list list \<Rightarrow> tensor3 option)" where
  "multi_head_attention P d_model n_head use_attn_mask =
     (if n_head = 0 then Inl ZeroDivisionError
      else if d_model mod n_head \<noteq> 0 then Inl AssertionError
      else Inr (\<lambda>queries msk. do {
        let in_proj = map (map (Linear (in_proj_w P) (in_proj_b P))) queries;
        in_proj \<leftarrow> reshape_B_L_n 3 in_proj;
        q \<leftarrow> split_heads (nat n_head) (map (map (\<lambda>qkv. qkv ! 0)) in_proj);
        k \<leftarrow> split_heads (nat n_head) (map (map (\<lambda>qkv. qkv ! 1)) in_proj);
        v \<leftarrow> split_heads (nat n_head) (map (map (\<lambda>qkv. qkv ! 2)) in_proj);
        attention \<leftarrow> ScaledDotProduct4 q k v (if use_attn_mask then Some msk else None);
        let values_hat = merge_heads attention;
        Some (map (map (Linear (out_w P) (out_b P))) values_hat)
      }))"

subsection \<open>\<^verbatim>\<open>mlp_resblock\<close>\<close>

record mlp_params =
  c_fc_w :: mat
  c_fc_b :: vec
  c_proj_w :: mat
  c_proj_b :: vec

definition mlp_resblock :: "mlp_params \<Rightarrow> int \<Rightarrow> tensor3 \<Rightarrow> tensor3" where
  "mlp_resblock P d_model input =
     (let c_fc_output = map (map (Linear (c_fc_w P) (c_fc_b P))) input;
          gelu_output = map (map (map quick_gelu)) c_fc_output
      in map (map (Linear (c_proj_w P) (c_proj_b P))) gelu_output)"

subsection \<open>\<^verbatim>\<open>residual_attention_block\<close>\<close>

text \<open>
  The two \<^verbatim>\<open>LayerNorm\<close> layers of the tensor library are parameters, any functions on
  tensors; the attention and the MLP are the blocks above with their weights.
\<close>

record block_params =
  ln_1 :: "tensor3 \<Rightarrow> tensor3"
  attn :: mha_params
  ln_2 :: "tensor3 \<Rightarrow> tensor3"
  mlp_weights :: mlp_params

definition residual_attention_block ::
  "block_params \<Rightarrow> int \<Rightarrow> int \<Rightarrow> bool \<Rightarrow>
   py_error + (tensor3 \<Rightarrow> xreal list list \<Rightarrow> tensor3 option)" where
  "residual_attention_block P d_model n_head use_attn_mask =
     (if n_head = 0 then Inl ZeroDivisionError
      else if d_model mod n_head \<noteq> 0 then Inl AssertionError
      else (case multi_head_attention (attn P) d_model n_head use_attn_mask of
              Inl e \<Rightarrow> Inl e
            | Inr attn_block \<Rightarrow>
                Inr (\<lambda>input msk. do {
                  let ln_1_output = ln_1 P input;
                  attention \<leftarrow> attn_block ln_1_output msk;
                  let ln_2_output = ln_2 P (add3 input attention);
                  let mlp_output = mlp_resblock (mlp_weights P) d_model ln_2_output;
                  Some (add3 input mlp_output)
                })))"

subsection \<open>\<^verbatim>\<open>multi_head_attention_forward\<close>\<close>

text \<open>
  \<^verbatim>\<open>x.reshape((T, bsz * num_heads, head_dim))\<close> for \<open>x\<close> of shape \<open>(T, bsz, E)\<close>: every
  vector is cut into \<open>num_heads\<close> pieces, which the tensor library accepts when
  \<open>num_heads\<close> divides \<open>E\<close>; and the reshape back to \<open>(T, bsz, E)\<close>.
\<close>

definition reshape_heads :: "nat \<Rightarrow> tensor3 \<Rightarrow> tensor3 option" where
  "reshape_heads num_heads x =
     those (map (\<lambda>rows. map_option concat (those (map (split_last num_heads) rows))) x)"

definition reshape_embed :: "nat \<Rightarrow> tensor3 \<Rightarrow> tensor3 option" where
  "reshape_embed bsz x = those (map (\<lambda>heads. split_last bsz (concat heads)) x)"

text \<open>
  Lines 239 to 268: the tensors \<open>q_r\<close>, \<open>k_r\<close> and \<open>v_r\<close> handed to the attention
  primitive. The queries are multiplied by \<^verbatim>\<open>scaling = head_dim ** -0.5\<close> after their
  projection. The assertions of the function are commented out in the source.
\<close>

definition mhaf_heads ::
  "int \<Rightarrow> int \<Rightarrow> tensor3 \<Rightarrow> tensor3 \<Rightarrow> tensor3 \<Rightarrow> mat \<Rightarrow> mat \<Rightarrow> mat \<Rightarrow> vec \<Rightarrow>
   (tensor3 \<times> tensor3 \<times> tensor3) option" where
  "mhaf_heads embed_dim_to_check num_heads query key val
       q_proj_weight k_proj_weight v_proj_weight in_proj_bias =
     (let embed_dim = shape_2 query;
          head_dim = int embed_dim div num_heads;
          scaling = real_of_int head_dim powr (- 0.5);
          e = nat embed_dim_to_check;
          q = scale3 (add_bias3 (matmul3 query (transpose q_proj_weight))
                        (slice 0 embed_dim in_proj_bias)) scaling;
          k = add_bias3 (matmul3 key (transpose k_proj_weight)) (slice e (2 * e) in_proj_bias);
          v = add_bias3 (matmul3 val (transpose v_proj_weight))
                (slice (2 * e) (3 * e) in_proj_bias)
      in do {
        q_r \<leftarrow> map_option transpose (reshape_heads (nat num_heads) q);
        k_r \<leftarrow> map_option transpose (reshape_heads (nat num_heads) k);
        v_r \<leftarrow> map_option transpose (reshape_heads (nat num_heads) v);
        Some (q_r, k_r, v_r)
      })"

definition multi_head_attention_forward ::
  "int \<Rightarrow> int \<Rightarrow> real \<Rightarrow> tensor3 \<Rightarrow> tensor3 \<Rightarrow> tensor3 \<Rightarrow> mat \<Rightarrow> mat \<Rightarrow> mat \<Rightarrow> vec \<Rightarrow>
   mat \<Rightarrow> vec \<Rightarrow> tensor3 option" where
  "multi_head_attention_forward embed_dim_to_check num_heads dropout_p query key val
       q_proj_weight k_proj_weight v_proj_weight in_proj_bias out_proj_weight out_proj_bias =
     do {
       (q_r, k_r, v_r) \<leftarrow> mhaf_heads embed_dim_to_check num_heads query key val
                            q_proj_weight k_proj_weight v_proj_weight in_proj_bias;
       attention \<leftarrow> ScaledDotProduct3 q_r k_r v_r None;
       attn_output \<leftarrow> reshape_embed (shape_1 query) (transpose attention);
       Some (add_bias3 (matmul3 attn_output (transpose out_proj_weight)) out_proj_bias)
     }"

text \<open>
  The attention weights inside that call of the primitive, one matrix per batch entry and
  head: what the block's output is computed from.
\<close>

definition mhaf_weights ::
  "int \<Rightarrow> int \<Rightarrow> tensor3 \<Rightarrow> tensor3 \<Rightarrow> tensor3 \<Rightarrow> mat \<Rightarrow> mat \<Rightarrow> mat \<Rightarrow> vec \<Rightarrow>
   tensor3 option" where
  "mhaf_weights embed_dim_to_check num_heads query key val
       q_proj_weight k_proj_weight v_proj_weight in_proj_bias =
     do {
       (q_r, k_r, v_r) \<leftarrow> mhaf_heads embed_dim_to_check num_heads query key val
                            q_proj_weight k_proj_weight v_proj_weight in_proj_bias;
       those (map (\<lambda>(q, k, v). sdp_weights q k None) (zip3 q_r k_r v_r))
     }"

subsection \<open>\<^verbatim>\<open>attention_pool2d\<close>\<close>

text \<open>\<^verbatim>\<open>Flatten(start_dim=2)\<close> on \<open>(B, C, H, W)\<close> and \<^verbatim>\<open>Transpose(axes=(2, 0, 1))\<close>.\<close>

definition Flatten_2 :: "tensor4 \<Rightarrow> tensor3" where
  "Flatten_2 x = map (map concat) x"

definition Transpose_2_0_1 :: "tensor3 \<Rightarrow> tensor3" where
  "Transpose_2_0_1 x = transpose (map transpose x)"

text \<open>\<^verbatim>\<open>Mean(axis=0, keepdim=True)\<close> on \<open>(T, B, C)\<close>: the mean over the tokens.\<close>

definition Mean_0 :: "tensor3 \<Rightarrow> tensor3" where
  "Mean_0 x =
     [map (\<lambda>tokens. map (\<lambda>column. sum_list column / real (length column)) (transpose tokens))
        (transpose x)]"

text \<open>
  \<^verbatim>\<open>x + positional_embedding[:, None, :]\<close>: row \<open>t\<close> of the embedding is added to every
  vector of token \<open>t\<close>; the embedding has one row per token.
\<close>

definition add_positional :: "tensor3 \<Rightarrow> mat \<Rightarrow> tensor3 option" where
  "add_positional x positional_embedding =
     (if length positional_embedding = length x
      then Some (map (\<lambda>(rows, p). map (\<lambda>v. map2 (+) v p) rows) (zip x positional_embedding))
      else None)"

text \<open>Lines 316 to 320: the sequence \<open>x\<close> that the attention call reads.\<close>

definition attention_pool2d_x :: "tensor4 \<Rightarrow> mat \<Rightarrow> tensor3 option" where
  "attention_pool2d_x input positional_embedding =
     (let flatten = Transpose_2_0_1 (Flatten_2 input);
          mean = Mean_0 flatten;
          cn1 = flatten @ mean
      in add_positional cn1 positional_embedding)"

text \<open>
  \<^verbatim>\<open>Squeeze()\<close> on the \<open>(1, B, D)\<close> result of the attention call removes the query axis
  of length one. (For \<open>B = 1\<close> it removes the batch axis too, which \<^verbatim>\<open>modified_resnet\<close>
  restores with its \<^verbatim>\<open>Reshape\<close>.)
\<close>

definition Squeeze_0 :: "tensor3 \<Rightarrow> mat option" where
  "Squeeze_0 x = (case x of [rows] \<Rightarrow> Some rows | _ \<Rightarrow> None)"

definition attention_pool2d ::
  "int \<Rightarrow> int \<Rightarrow> int \<Rightarrow> tensor4 \<Rightarrow> mat \<Rightarrow> mat \<Rightarrow> mat \<Rightarrow> vec \<Rightarrow> mat \<Rightarrow> vec \<Rightarrow> mat \<Rightarrow>
   mat option" where
  "attention_pool2d spacial_dim embed_dim num_heads input
       q_proj_weight k_proj_weight v_proj_weight in_proj_bias out_proj_weight out_proj_bias
       positional_embedding =
     do {
       x \<leftarrow> attention_pool2d_x input positional_embedding;
       attention \<leftarrow> multi_head_attention_forward embed_dim num_heads 0 (take 1 x) x x
                      q_proj_weight k_proj_weight v_proj_weight in_proj_bias
                      out_proj_weight out_proj_bias;
       Squeeze_0 attention
     }"

subsection \<open>\<^verbatim>\<open>bottleneck\<close> and \<^verbatim>\<open>make_layer\<close>\<close>

text \<open>
  The layers of the tensor library that a bottleneck is wired from. A convolution is
  given by the name of the layer (which owns the weights), its kernel size, its number of
  output channels and its padding; the stride is 1 throughout. The record is read at two
  types: tensors with their values, and shapes.
\<close>

record 'a conv_ops =
  Convolution2D :: "string \<Rightarrow> int \<Rightarrow> int \<Rightarrow> int \<Rightarrow> 'a \<Rightarrow> 'a"
  GroupNorm :: "string \<Rightarrow> 'a \<Rightarrow> 'a"
  Relu :: "'a \<Rightarrow> 'a"
  MaxPool2D :: "int \<Rightarrow> 'a \<Rightarrow> 'a"
  Add :: "'a \<Rightarrow> 'a \<Rightarrow> 'a"

text \<open>The main path up to \<^verbatim>\<open>out1\<close>, lines 348 to 369.\<close>

definition bottleneck_out1 :: "'a conv_ops \<Rightarrow> int \<Rightarrow> int \<Rightarrow> 'a \<Rightarrow> 'a" where
  "bottleneck_out1 ops planes stride input =
     (let expansion = 4;
          x = Convolution2D ops ''conv1'' 1 planes 0 input;
          x = GroupNorm ops ''bn1'' x;
          x = Relu ops x;
          x = Convolution2D ops ''conv2'' 3 planes 1 x;
          x = GroupNorm ops ''bn2'' x;
          x = Relu ops x;
          x = (if stride > 1 then MaxPool2D ops stride x else x);
          x = Convolution2D ops ''conv3'' 1 (planes * expansion) 0 x
      in GroupNorm ops ''bn3'' x)"

text \<open>What is added to \<^verbatim>\<open>out1\<close>, lines 371 to 389.\<close>

definition bottleneck_shortcut :: "'a conv_ops \<Rightarrow> int \<Rightarrow> int \<Rightarrow> int \<Rightarrow> 'a \<Rightarrow> 'a" where
  "bottleneck_shortcut ops inplanes planes stride input =
     (let expansion = 4
      in if stride > 1 \<or> inplanes \<noteq> planes * expansion
         then (let downsample_pool = MaxPool2D ops stride input;
                   downsample_conv =
                     Convolution2D ops ''downsample_0'' 1 (planes * expansion) 0 downsample_pool;
                   out2 = GroupNorm ops ''downsample_1'' downsample_conv
               in out2)
         else input)"

definition bottleneck :: "'a conv_ops \<Rightarrow> int \<Rightarrow> int \<Rightarrow> int \<Rightarrow> 'a \<Rightarrow> 'a" where
  "bottleneck ops inplanes planes stride input =
     (let out1 = bottleneck_out1 ops planes stride input;
          out = Add ops out1 (bottleneck_shortcut ops inplanes planes stride input)
      in Relu ops out)"

text \<open>
  \<^verbatim>\<open>make_layer\<close>: block \<open>i\<close> has layers of its own, \<open>ops i\<close>. The last line reads the loop
  variable \<^verbatim>\<open>i\<close>, which has no value when the loop \<^verbatim>\<open>range(1, blocks)\<close> is empty.
\<close>

definition make_layer ::
  "(nat \<Rightarrow> 'a conv_ops) \<Rightarrow> int \<Rightarrow> int \<Rightarrow> int \<Rightarrow> int \<Rightarrow> py_error + ('a \<Rightarrow> 'a)" where
  "make_layer ops inplanes planes blocks stride =
     (let inplanes' = 4 * inplanes
      in if blocks \<le> 1 then Inl NameError
         else Inr (\<lambda>input.
           fold (\<lambda>i x. bottleneck (ops i) inplanes' planes 1 x) [1..<nat blocks]
                (bottleneck (ops 0) inplanes planes stride input)))"

text \<open>
  Modelled from the spec: the shapes the layers compute on a \<open>(B, C, H, W)\<close> input. A
  convolution of stride 1 gives \<open>H + 2 padding - kernel_size + 1\<close> rows, a pooling with
  kernel and stride \<open>k\<close> gives \<open>H div k\<close>, a normalization and a ReLU keep the shape, and
  an addition needs two tensors of one shape. \<open>None\<close> is a shape error.
\<close>

definition shape_ops :: "int list option conv_ops" where
  "shape_ops = \<lparr>
     Convolution2D = (\<lambda>name kernel_size out_channels padding s.
        case s of
          Some [b, c, h, w] \<Rightarrow>
            Some [b, out_channels, h + 2 * padding - kernel_size + 1,
                  w + 2 * padding - kernel_size + 1]
        | _ \<Rightarrow> None),
     GroupNorm = (\<lambda>name s. s),
     Relu = (\<lambda>s. s),
     MaxPool2D = (\<lambda>kernel_size s.
        case s of
          Some [b, c, h, w] \<Rightarrow> Some [b, c, h div kernel_size, w div kernel_size]
        | _ \<Rightarrow> None),
     Add = (\<lambda>s t. if s = t then s else None)\<rparr>"

subsection \<open>\<^verbatim>\<open>norm\<close>\<close>

text \<open>
  The argument \<open>p\<close> is a string or an integer. In the last branch \<^verbatim>\<open>1 / p\<close> is computed
  while the block is built: it raises for \<open>p = 0\<close> and for a string.
\<close>

datatype p_arg = PStr string | PInt int

definition norm_model ::
  "p_arg \<Rightarrow> int option \<Rightarrow> bool \<Rightarrow> py_error + (tensor \<Rightarrow> tensor option)" where
  "norm_model p axis keepdim =
     (if p = PStr ''inf'' then Inr (\<lambda>input. Max_t axis keepdim (tmap abs input))
      else if p = PInt 1 then Inr (\<lambda>input. Sum axis keepdim (tmap abs input))
      else if p = PInt 2 then
        Inr (\<lambda>input. map_option (tmap sqrt) (Sum axis keepdim (tmap (\<lambda>x. x ^ 2) input)))
      else (case p of
              PStr s \<Rightarrow> Inl TypeError
            | PInt n \<Rightarrow>
                if n = 0 then Inl ZeroDivisionError
                else Inr (\<lambda>input. map_option (tmap (\<lambda>x. x powr (1 / real_of_int n)))
                                    (Sum axis keepdim (tmap (\<lambda>x. \<bar>x\<bar> powi n) input)))))"

subsection \<open>\<^verbatim>\<open>eot_creator\<close>\<close>

text \<open>
  \<^verbatim>\<open>input[None, i, 0]\<close>: the entry at index \<open>i\<close> of the first axis and index \<open>0\<close> of the
  second, under a new leading axis of length one.
\<close>

definition getitem_None_i_0 :: "'a list list \<Rightarrow> nat \<Rightarrow> 'a list option" where
  "getitem_None_i_0 input i =
     (if i < length input
      then (case input ! i of [] \<Rightarrow> None | h # _ \<Rightarrow> Some [h])
      else None)"

text \<open>
  The loop \<^verbatim>\<open>for i in range(batch_number)\<close> of \<^verbatim>\<open>eot_creator\<close>: each round
  concatenates \<^verbatim>\<open>input[None, i + 1, 0]\<close> to what has been collected, along axis 0.
\<close>

fun eot_loop :: "'a list list \<Rightarrow> nat list \<Rightarrow> 'a list \<Rightarrow> 'a list option" where
  "eot_loop input [] batch_max = Some batch_max"
| "eot_loop input (i # is) batch_max =
     (case getitem_None_i_0 input (i + 1) of
        None \<Rightarrow> None
      | Some row \<Rightarrow> eot_loop input is (batch_max @ row))"

text \<open>
  \<^verbatim>\<open>eot_creator(batch_number)\<close> applied to the hidden states \<open>input\<close> and the token ids
  \<open>text\<close>. The \<^verbatim>\<open>ArgMax\<close> block is evaluated on \<open>text\<close> and bound to the name
  \<^verbatim>\<open>argmax\<close>, which nothing reads afterwards.
\<close>

definition eot_creator :: "int \<Rightarrow> 'a list list \<Rightarrow> int list list \<Rightarrow> 'a list option" where
  "eot_creator batch_number input text =
     (case ArgMax text of
        None \<Rightarrow> None
      | Some argmax_output \<Rightarrow>
          (case getitem_None_i_0 input 0 of
             None \<Rightarrow> None
           | Some batch_max_0 \<Rightarrow> eot_loop input [0..<nat batch_number] batch_max_0))"

subsection \<open>\<^verbatim>\<open>clip\<close>\<close>

text \<open>\<^verbatim>\<open>a / n\<close> for a matrix \<open>a\<close> and the column \<open>n\<close> of its row norms (\<^verbatim>\<open>keepdim=True\<close>).\<close>

definition div_keepdim :: "mat \<Rightarrow> mat \<Rightarrow> mat option" where
  "div_keepdim a n =
     (if length n = length a \<and> list_all (\<lambda>r. length r = 1) n
      then Some (map (\<lambda>(row, r). map (\<lambda>x. x / hd r) row) (zip a n))
      else None)"

text \<open>
  Lines 640 to 655 of \<^verbatim>\<open>clip\<close>: the two normalized embeddings. The towers above are
  arguments: \<open>image_features\<close> is the output of the vision tower and \<open>ln_final\<close> the
  output of the text tower's last \<^verbatim>\<open>LayerNorm\<close>.
\<close>

definition clip_embeds ::
  "mat \<Rightarrow> tensor3 \<Rightarrow> int list list \<Rightarrow> mat \<Rightarrow> py_error + (mat \<times> mat) option" where
  "clip_embeds image_features ln_final text text_projection =
     (case norm_model (PInt 2) (Some 1) True of
        Inl e \<Rightarrow> Inl e
      | Inr norm1 \<Rightarrow>
          (case norm_model (PInt 2) (Some 1) True of
             Inl e \<Rightarrow> Inl e
           | Inr norm2 \<Rightarrow>
               Inr (do {
                 eot_tokens \<leftarrow> eot_creator 0 ln_final text;
                 let text_features = matmul eot_tokens text_projection;
                 image_features_norm \<leftarrow> Option.bind (norm1 (of_mat image_features)) to_mat;
                 text_features_norm \<leftarrow> Option.bind (norm2 (of_mat text_features)) to_mat;
                 image_features \<leftarrow> div_keepdim image_features image_features_norm;
                 text_features \<leftarrow> div_keepdim text_features text_features_norm;
                 Some (image_features, text_features)
               })))"

record clip_outputs =
  logits_per_image :: mat
  logits_per_text :: mat

text \<open>Lines 657 to 665: the two outputs of the model.\<close>

definition clip ::
  "mat \<Rightarrow> tensor3 \<Rightarrow> int list list \<Rightarrow> mat \<Rightarrow> real \<Rightarrow> py_error + clip_outputs option" where
  "clip image_features ln_final text text_projection logit_scale =
     (case clip_embeds image_features ln_final text text_projection of
        Inl e \<Rightarrow> Inl e
      | Inr embeds \<Rightarrow>
          Inr (map_option (\<lambda>(image_features, text_features).
                 (let per_image = map (map (\<lambda>x. exp logit_scale * x))
                                    (matmul image_features (transpose text_features));
                      per_text = transpose per_image
                  in \<lparr>logits_per_image = per_image, logits_per_text = per_text\<rparr>)) embeds))"

section \<open>model_mlx.py\<close>

subsection \<open>\<^verbatim>\<open>build_attention_mask\<close>\<close>

definition build_attention_mask :: "xreal list list" where
  "build_attention_mask =
     (let arange_out_1 = [0..<77];
          arange_out_2 = [0..<77];
          upper_bool_triu = map (\<lambda>i. map (\<lambda>j. i \<ge> j) arange_out_2) arange_out_1
      in map (map (\<lambda>cond. if cond then Fin 0 else NegInf)) upper_bool_triu)"

subsection \<open>\<^verbatim>\<open>attention\<close>\<close>

text \<open>The weights of the layers \<^verbatim>\<open>q_proj\<close>, \<^verbatim>\<open>k_proj\<close>, \<^verbatim>\<open>v_proj\<close> and \<^verbatim>\<open>out_proj\<close>.\<close>

record attention_params =
  q_proj_w :: mat
  q_proj_b :: vec
  k_proj_w :: mat
  k_proj_b :: vec
  v_proj_w :: mat
  v_proj_b :: vec
  out_proj_w :: mat
  out_proj_b :: vec

text \<open>
  Lines 70 to 88: the projections and their split into heads. The optional sizes of the
  builder default to \<open>dims\<close> at its one call, in \<^verbatim>\<open>encode_layer\<close>, and are left out.
\<close>

definition attention_heads ::
  "attention_params \<Rightarrow> int \<Rightarrow> bool \<Rightarrow> tensor3 \<Rightarrow> tensor3 \<Rightarrow> tensor3 \<Rightarrow>
   (tensor4 \<times> tensor4 \<times> tensor4) option" where
  "attention_heads P num_heads bias queries keys values =
     (let proj = (\<lambda>w b. if bias then Linear w b else Linear_nobias w);
          queries_proj = map (map (proj (q_proj_w P) (q_proj_b P))) queries;
          keys_proj = map (map (proj (k_proj_w P) (k_proj_b P))) keys;
          values_proj = map (map (proj (v_proj_w P) (v_proj_b P))) values
      in do {
        q \<leftarrow> split_heads (nat num_heads) queries_proj;
        k \<leftarrow> split_heads (nat num_heads) keys_proj;
        v \<leftarrow> split_heads (nat num_heads) values_proj;
        Some (q, k, v)
      })"

text \<open>The builder has no assertion and no other statement that can raise.\<close>

definition attention ::
  "attention_params \<Rightarrow> int \<Rightarrow> int \<Rightarrow> bool \<Rightarrow> bool \<Rightarrow>
   py_error + (tensor3 \<Rightarrow> tensor3 \<Rightarrow> tensor3 \<Rightarrow> tensor3 option)" where
  "attention P dims num_heads bias use_mask =
     Inr (\<lambda>queries keys values. do {
        (q, k, v) \<leftarrow> attention_heads P num_heads bias queries keys values;
        scores \<leftarrow> ScaledDotProduct4 q k v (if use_mask then Some build_attention_mask else None);
        let values_hat = merge_heads scores;
        Some (map (map (Linear (out_proj_w P) (out_proj_b P))) values_hat)
      })"

text \<open>
  The attention weights inside the call of the primitive, one matrix per batch entry and
  head.
\<close>

definition attention_weights ::
  "attention_params \<Rightarrow> int \<Rightarrow> bool \<Rightarrow> bool \<Rightarrow> tensor3 \<Rightarrow> tensor3 \<Rightarrow> tensor3 \<Rightarrow> tensor4 option" where
  "attention_weights P num_heads bias use_mask queries keys values =
     do {
       (q, k, v) \<leftarrow> attention_heads P num_heads bias queries keys values;
       those (map (\<lambda>(qb, kb, vb).
                those (map (\<lambda>(qh, kh, vh).
                         sdp_weights qh kh (if use_mask then Some build_attention_mask else None))
                       (zip3 qb kb vb)))
              (zip3 q k v))
     }"

subsection \<open>\<^verbatim>\<open>mlp\<close> and \<^verbatim>\<open>encode_layer\<close>\<close>

record config =
  hidden_size :: int
  intermediate_size :: int
  num_attention_heads :: int

record fc_params =
  fc1_w :: mat
  fc1_b :: vec
  fc2_w :: mat
  fc2_b :: vec

definition mlp :: "fc_params \<Rightarrow> config \<Rightarrow> tensor3 \<Rightarrow> tensor3" where
  "mlp P cfg input =
     (let fc1_output = map (map (Linear (fc1_w P) (fc1_b P))) input;
          gelu_output = map (map (map quick_gelu)) fc1_output
      in map (map (Linear (fc2_w P) (fc2_b P))) gelu_output)"

text \<open>The two \<^verbatim>\<open>LayerNorm\<close> layers, with their \<^verbatim>\<open>eps\<close>, are parameters.\<close>

record layer_params =
  layer_norm1 :: "tensor3 \<Rightarrow> tensor3"
  self_attn :: attention_params
  layer_norm2 :: "tensor3 \<Rightarrow> tensor3"
  mlp_fc :: fc_params

definition encode_layer ::
  "layer_params \<Rightarrow> config \<Rightarrow> bool \<Rightarrow> py_error + (tensor3 \<Rightarrow> tensor3 option)" where
  "encode_layer P cfg use_mask =
     (case attention (self_attn P) (hidden_size cfg) (num_attention_heads cfg) True use_mask of
        Inl e \<Rightarrow> Inl e
      | Inr self_attn_block \<Rightarrow>
          Inr (\<lambda>input. do {
            let ln_1_output = layer_norm1 P input;
            attn_output \<leftarrow> self_attn_block ln_1_output ln_1_output ln_1_output;
            let ln_2_output = layer_norm2 P (add3 input attn_output);
            let mlp_output = mlp (mlp_fc P) cfg ln_2_output;
            Some (add3 (add3 input attn_output) mlp_output)
          }))"

subsection \<open>\<^verbatim>\<open>clip_text_model\<close>\<close>

text \<open>
  \<^verbatim>\<open>x[rows, cols]\<close> with two index arrays: entry \<open>n\<close> of the result is
  \<open>x[rows[n]][cols[n]]\<close>.
\<close>

fun getitem_pairs :: "'a list list \<Rightarrow> (nat \<times> nat) list \<Rightarrow> 'a list option" where
  "getitem_pairs x [] = Some []"
| "getitem_pairs x ((b, j) # ps) =
     (if b < length x \<and> j < length (x ! b)
      then (case getitem_pairs x ps of None \<Rightarrow> None | Some r \<Rightarrow> Some (x ! b ! j # r))
      else None)"

text \<open>
  \<^verbatim>\<open>clip_text_model\<close>. The sub-blocks \<^verbatim>\<open>text_embeddings\<close>, \<^verbatim>\<open>encoder\<close> and the final
  \<^verbatim>\<open>LayerNorm\<close> are arguments: the pooling is the same whatever they compute. The result
  is the block's \<^verbatim>\<open>output\<close>; its second output \<^verbatim>\<open>embed_out\<close> is \<open>last_hidden_state\<close>.
\<close>

definition clip_text_model ::
  "(int list list \<Rightarrow> 'a list list) \<Rightarrow> ('a list list \<Rightarrow> 'a list list) \<Rightarrow>
   ('a list list \<Rightarrow> 'a list list) \<Rightarrow> int list list \<Rightarrow> 'a list option" where
  "clip_text_model text_embeddings encoder final_layer_norm input =
     (let B = length input;
          embeddings_output = text_embeddings input;
          t_encoder_output = encoder embeddings_output;
          last_hidden_state = final_layer_norm t_encoder_output;
          arange_output = [0..<B]
      in (case ArgMax input of
            None \<Rightarrow> None
          | Some argmax_output \<Rightarrow>
              getitem_pairs last_hidden_state (zip arange_output argmax_output)))"

subsection \<open>\<^verbatim>\<open>norm\<close>\<close>

text \<open>As in \<^verbatim>\<open>model.py\<close>, but the last branch asserts that \<open>p\<close> is an integer.\<close>

definition norm_mlx ::
  "p_arg \<Rightarrow> int option \<Rightarrow> bool \<Rightarrow> py_error + (tensor \<Rightarrow> tensor option)" where
  "norm_mlx p axis keepdim =
     (if p = PStr ''inf'' then Inr (\<lambda>input. Max_t axis keepdim (tmap abs input))
      else if p = PInt 1 then Inr (\<lambda>input. Sum axis keepdim (tmap abs input))
      else if p = PInt 2 then
        Inr (\<lambda>input. map_option (tmap sqrt) (Sum axis keepdim (tmap (\<lambda>x. x ^ 2) input)))
      else (case p of
              PStr s \<Rightarrow> Inl AssertionError
            | PInt n \<Rightarrow>
                if n = 0 then Inl ZeroDivisionError
                else Inr (\<lambda>input. map_option (tmap (\<lambda>x. x powr (1 / real_of_int n)))
                                    (Sum axis keepdim (tmap (\<lambda>x. \<bar>x\<bar> powi n) input)))))"

section \<open>Concrete inputs\<close>

text \<open>
  Parameters at which the properties below are evaluated. First the weights of an attention
  block of width 1: every projection has weight 1 and bias 0.
\<close>

definition unit_params :: attention_params where
  "unit_params = \<lparr>q_proj_w = [[1]], q_proj_b = [0], k_proj_w = [[1]], k_proj_b = [0],
     v_proj_w = [[1]], v_proj_b = [0], out_proj_w = [[1]], out_proj_b = [0]\<rparr>"

text \<open>
  A residual block of width 1 with one head: both layer norms return their bias 1 (a
  \<^verbatim>\<open>LayerNorm\<close> over a single feature subtracts the feature from itself), the attention
  projections have weight 1 and bias 0, and the MLP returns the bias 5 of \<^verbatim>\<open>c_proj\<close>.
\<close>

definition unit_block :: block_params where
  "unit_block = \<lparr>
     ln_1 = (\<lambda>x. [[[1]]]),
     attn = \<lparr>in_proj_w = [[1], [1], [1]], in_proj_b = [0, 0, 0], out_w = [[1]], out_b = [0]\<rparr>,
     ln_2 = (\<lambda>x. [[[1]]]),
     mlp_weights = \<lparr>c_fc_w = [[1], [1], [1], [1]], c_fc_b = [0, 0, 0, 0],
                     c_proj_w = [[0, 0, 0, 0]], c_proj_b = [5]\<rparr>\<rparr>"

text \<open>The same block for \<^verbatim>\<open>encode_layer\<close>.\<close>

definition unit_layer :: layer_params where
  "unit_layer = \<lparr>
     layer_norm1 = (\<lambda>x. [[[1]]]),
     self_attn = \<lparr>q_proj_w = [[1]], q_proj_b = [0], k_proj_w = [[1]], k_proj_b = [0],
                  v_proj_w = [[1]], v_proj_b = [0], out_proj_w = [[1]], out_proj_b = [0]\<rparr>,
     layer_norm2 = (\<lambda>x. [[[1]]]),
     mlp_fc = \<lparr>fc1_w = [[1], [1], [1], [1]], fc1_b = [0, 0, 0, 0],
                fc2_w = [[0, 0, 0, 0]], fc2_b = [5]\<rparr>\<rparr>"

text \<open>Attention weights for a hidden size of 3: identity projections without bias.\<close>

definition identity3 :: attention_params where
  "identity3 = \<lparr>
     q_proj_w = [[1, 0, 0], [0, 1, 0], [0, 0, 1]], q_proj_b = [0, 0, 0],
     k_proj_w = [[1, 0, 0], [0, 1, 0], [0, 0, 1]], k_proj_b = [0, 0, 0],
     v_proj_w = [[1, 0, 0], [0, 1, 0], [0, 0, 1]], v_proj_b = [0, 0, 0],
     out_proj_w = [[1, 0, 0], [0, 1, 0], [0, 0, 1]], out_proj_b = [0, 0, 0]\<rparr>"

text \<open>Attention weights for a hidden size of 4: identity projections.\<close>

definition identity4 :: attention_params where
  "identity4 = \<lparr>
     q_proj_w = [[1, 0, 0, 0], [0, 1, 0, 0], [0, 0, 1, 0], [0, 0, 0, 1]], q_proj_b = [0, 0, 0, 0],
     k_proj_w = [[1, 0, 0, 0], [0, 1, 0, 0], [0, 0, 1, 0], [0, 0, 0, 1]], k_proj_b = [0, 0, 0, 0],
     v_proj_w = [[1, 0, 0, 0], [0, 1, 0, 0], [0, 0, 1, 0], [0, 0, 0, 1]], v_proj_b = [0, 0, 0, 0],
     out_proj_w = [[1, 0, 0, 0], [0, 1, 0, 0], [0, 0, 1, 0], [0, 0, 0, 1]],
     out_proj_b = [0, 0, 0, 0]\<rparr>"

section \<open>Properties\<close>

subsection \<open>End-of-text pooling\<close>

lemma ArgMax_nonempty:
  "list_all (\<lambda>row. row \<noteq> []) tokens \<Longrightarrow> ArgMax tokens = Some (map argmax tokens)"
  by (induction tokens) (auto simp: ArgMax_def)

lemma getitem_None_i_0_ok:
  "i < length input \<Longrightarrow> input ! i \<noteq> [] \<Longrightarrow> getitem_None_i_0 input i = Some [hd (input ! i)]"
  by (cases "input ! i") (auto simp: getitem_None_i_0_def)

lemma eot_loop_ok:
  "list_all (\<lambda>i. i + 1 < length input \<and> input ! (i + 1) \<noteq> []) is \<Longrightarrow>
   eot_loop input is acc = Some (acc @ map (\<lambda>i. hd (input ! (i + 1))) is)"
  by (induction "is" arbitrary: acc) (auto simp: getitem_None_i_0_ok)

lemma upt_shift: "map (\<lambda>i. f (Suc i)) [0..<n] = map f [Suc 0..<Suc n]"
  by (induction n) auto

lemma eot_creator_position_0:
  assumes "list_all (\<lambda>row. row \<noteq> []) tokens" and "nat n < length input"
    and "list_all (\<lambda>row. row \<noteq> []) input"
  shows "eot_creator n input tokens = Some (map (\<lambda>b. input ! b ! 0) [0..<nat n + 1])"
proof -
  have rows: "input ! b \<noteq> []" if "b < length input" for b
    using assms(3) that by (simp add: list_all_length)
  have loop: "list_all (\<lambda>i. i + 1 < length input \<and> input ! (i + 1) \<noteq> []) [0..<nat n]"
    using assms(2) rows by (simp add: list_all_iff)
  have hd0: "hd (input ! b) = input ! b ! 0" if "b < length input" for b
    using rows [OF that] by (simp add: hd_conv_nth)
  have first: "getitem_None_i_0 input 0 = Some [hd (input ! 0)]"
  proof (rule getitem_None_i_0_ok)
    show "0 < length input" using assms(2) by (cases input) auto
    then show "input ! 0 \<noteq> []" by (rule rows)
  qed
  have "eot_creator n input tokens
      = Some ([hd (input ! 0)] @ map (\<lambda>i. hd (input ! (i + 1))) [0..<nat n])"
    using assms(1) by (simp add: eot_creator_def ArgMax_nonempty first eot_loop_ok [OF loop])
  also have "[hd (input ! 0)] @ map (\<lambda>i. hd (input ! (i + 1))) [0..<nat n]
      = map (\<lambda>b. hd (input ! b)) [0..<nat n + 1]"
    using upt_shift [of "\<lambda>b. hd (input ! b)" "nat n"] by (simp add: upt_conv_Cons del: upt_Suc)
  also have "\<dots> = map (\<lambda>b. input ! b ! 0) [0..<nat n + 1]"
    using assms(2) hd0 by simp
  finally show ?thesis .
qed

text \<open>
  C10. In \<^verbatim>\<open>model.py\<close> the output of \<^verbatim>\<open>eot_creator\<close> does not depend on its \<^verbatim>\<open>text\<close>
  input: two runs on the same hidden states and any two token-id tensors (each row holding
  at least one id, so that the unused argmax is defined) give the same result, failures
  included. When the hidden states have more than \<open>batch_number\<close> rows, the result is, for
  each row \<open>b\<close> up to \<open>batch_number\<close>, the hidden state at sequence position 0.
\<close>

theorem eot_creator_ignores_text:
  assumes "list_all (\<lambda>row. row \<noteq> []) text1" and "list_all (\<lambda>row. row \<noteq> []) text2"
  shows "eot_creator n input text1 = eot_creator n input text2 \<and>
         (nat n < length input \<and> list_all (\<lambda>row. row \<noteq> []) input \<longrightarrow>
            eot_creator n input text1 = Some (map (\<lambda>b. input ! b ! 0) [0..<nat n + 1]))"
proof
  show "eot_creator n input text1 = eot_creator n input text2"
    using assms by (simp add: eot_creator_def ArgMax_nonempty)
  show "nat n < length input \<and> list_all (\<lambda>row. row \<noteq> []) input \<longrightarrow>
          eot_creator n input text1 = Some (map (\<lambda>b. input ! b ! 0) [0..<nat n + 1])"
  proof (intro impI)
    assume "nat n < length input \<and> list_all (\<lambda>row. row \<noteq> []) input"
    then show "eot_creator n input text1 = Some (map (\<lambda>b. input ! b ! 0) [0..<nat n + 1])"
      using assms(1) eot_creator_position_0 [of text1 n input] by blast
  qed
qed

theorem eot_creator_ignores_text_witness:
  "eot_creator 1 [[[1], [2], [3], [4]], [[5], [6], [7], [8::real]]] [[5, 12, 99, 7], [1, 2, 3, 4]]
     = eot_creator 1 [[[1], [2], [3], [4]], [[5], [6], [7], [8]]] [[99, 0, 0, 0], [7, 7, 7, 7]] \<and>
   eot_creator 1 [[[1], [2], [3], [4]], [[5], [6], [7], [8::real]]] [[5, 12, 99, 7], [1, 2, 3, 4]]
     = Some [[1], [5]]"
  using eot_creator_ignores_text
    [of "[[5, 12, 99, 7], [1, 2, 3, 4]]" "[[99, 0, 0, 0], [7, 7, 7, 7]]" 1
        "[[[1], [2], [3], [4]], [[5], [6], [7], [8::real]]]"]
  by (auto simp: upt_conv_Cons)

lemma fold_max_hd:
  assumes "xs \<noteq> []"
  shows "fold max xs (hd xs) = Max (set xs)"
proof (cases xs)
  case Nil
  with assms show ?thesis by simp
next
  case (Cons a list)
  then show ?thesis using Max.set_eq_fold [of a list] by simp
qed

lemma argmax_less: "xs \<noteq> [] \<Longrightarrow> argmax xs < length xs"
proof -
  assume ne: "xs \<noteq> []"
  then have "Max (set xs) \<in> set xs" by (intro Max_in) auto
  then have "takeWhile (\<lambda>x. x \<noteq> Max (set xs)) xs \<noteq> xs"
    by (auto simp: takeWhile_eq_all_conv)
  moreover have "length (takeWhile (\<lambda>x. x \<noteq> Max (set xs)) xs) \<le> length xs"
    by (rule length_takeWhile_le)
  ultimately have "length (takeWhile (\<lambda>x. x \<noteq> Max (set xs)) xs) < length xs"
    by (metis le_neq_implies_less takeWhile_eq_take take_all_iff order_refl)
  then show ?thesis using ne by (simp add: argmax_def fold_max_hd)
qed

lemma argmax_is_max: "xs \<noteq> [] \<Longrightarrow> xs ! argmax xs = Max (set xs)"
  using argmax_less [of xs] nth_length_takeWhile [of "\<lambda>x. x \<noteq> Max (set xs)" xs]
  by (simp add: argmax_def fold_max_hd)

lemma getitem_pairs_ok:
  "list_all (\<lambda>(b, j). b < length x \<and> j < length (x ! b)) ps \<Longrightarrow>
   getitem_pairs x ps = Some (map (\<lambda>(b, j). x ! b ! j) ps)"
  by (induction ps) auto

lemma clip_text_model_pools_argmax:
  assumes h_def: "h = final_layer_norm (encoder (text_embeddings ids))"
    and rows: "length h = length ids"
    and cols: "list_all (\<lambda>b. length (h ! b) = length (ids ! b)) [0..<length ids]"
    and ne: "list_all (\<lambda>row. row \<noteq> []) ids"
  shows "clip_text_model text_embeddings encoder final_layer_norm ids
           = Some (map (\<lambda>b. h ! b ! argmax (ids ! b)) [0..<length ids])"
proof -
  have "list_all (\<lambda>(b, j). b < length h \<and> j < length (h ! b))
          (zip [0..<length ids] (map argmax ids))"
    using rows cols ne by (auto simp: list_all_length argmax_less)
  then have "getitem_pairs h (zip [0..<length ids] (map argmax ids))
      = Some (map (\<lambda>(b, j). h ! b ! j) (zip [0..<length ids] (map argmax ids)))"
    by (rule getitem_pairs_ok)
  also have "map (\<lambda>(b, j). h ! b ! j) (zip [0..<length ids] (map argmax ids))
      = map (\<lambda>b. h ! b ! argmax (ids ! b)) [0..<length ids]"
    by (rule nth_equalityI) auto
  finally show ?thesis
    using ne by (simp add: clip_text_model_def ArgMax_nonempty h_def Let_def)
qed

text \<open>
  C1. End-of-text pooling selects, for row \<open>b\<close>, the hidden state at position
  \<open>argmax(token_ids[b])\<close>. \<^verbatim>\<open>clip_text_model\<close> of \<^verbatim>\<open>model_mlx.py\<close> does so (lemma
  \<open>clip_text_model_pools_argmax\<close>). \<^verbatim>\<open>eot_creator\<close> of \<^verbatim>\<open>model.py\<close> does not: for the
  token ids \<open>[5, 12, 99, 7]\<close>, whose argmax is 2, and the hidden states \<open>[1], [2], [3], [4]\<close>
  it returns the state at position 0, where \<^verbatim>\<open>clip_text_model\<close> returns the one at
  position 2.
\<close>

theorem eot_creator_selects_position_0_not_argmax:
  "argmax [5, 12, 99, 7] = 2 \<and>
   eot_creator 0 [[[1], [2], [3], [4::real]]] [[5, 12, 99, 7]] = Some [[1]] \<and>
   eot_creator 0 [[[1], [2], [3], [4::real]]] [[5, 12, 99, 7]]
     \<noteq> Some [[[[1], [2], [3], [4]]] ! 0 ! argmax [5, 12, 99, 7]] \<and>
   clip_text_model (\<lambda>ids. [[[1], [2], [3], [4::real]]]) (\<lambda>x. x) (\<lambda>x. x) [[5, 12, 99, 7]]
     = Some [[3]]"
  by (simp add: eot_creator_def ArgMax_def getitem_None_i_0_def argmax_def clip_text_model_def)

subsection \<open>The causal mask\<close>

lemma those_Some_length: "those xs = Some ys \<Longrightarrow> length ys = length xs"
  by (induction xs arbitrary: ys) (auto split: option.splits)

lemma those_Some_nth: "those xs = Some ys \<Longrightarrow> n < length xs \<Longrightarrow> xs ! n = Some (ys ! n)"
proof (induction xs arbitrary: ys n)
  case Nil
  then show ?case by simp
next
  case (Cons x xs)
  then show ?case by (cases n) (auto split: option.splits)
qed

lemma those_map_Some: "list_all (\<lambda>x. f x = Some (g x)) xs \<Longrightarrow> those (map f xs) = Some (map g xs)"
  by (induction xs) auto

lemma build_attention_mask_shape: "has_shape 77 77 build_attention_mask"
  by (simp add: has_shape_def build_attention_mask_def Let_def list_all_iff del: upt_Suc)

lemma build_attention_mask_entry:
  "i < 77 \<Longrightarrow> j < 77 \<Longrightarrow> build_attention_mask ! i ! j = (if i \<ge> j then Fin 0 else NegInf)"
  by (simp add: build_attention_mask_def Let_def del: upt_Suc)

lemma Softmax_masked_entry:
  assumes "j < length row" and "j < length bias" and "bias ! j = NegInf"
  shows "Softmax (map2 add_mask row bias) ! j = 0"
  using assms by (simp add: Softmax_def)

lemma sdp_weights_causal:
  assumes w: "sdp_weights query key (Some build_attention_mask) = Some weights"
    and ij: "i < j" "j < 77"
  shows "weights ! i ! j = 0"
proof -
  have shape: "has_shape (length query) (length key) build_attention_mask"
    using w by (auto simp: sdp_weights_def Let_def split: if_splits)
  have "length build_attention_mask = 77" and "length (build_attention_mask ! 0) = 77"
    using build_attention_mask_shape by (simp_all add: has_shape_def list_all_length)
  moreover have "length build_attention_mask = length query"
    using shape by (simp add: has_shape_def)
  moreover have "length (build_attention_mask ! 0) = length key"
    using shape calculation(1) by (simp add: has_shape_def list_all_length)
  ultimately have len: "length query = 77" "length key = 77"
    by simp_all
  have row: "length (build_attention_mask ! i) = 77"
    using build_attention_mask_shape ij by (simp add: has_shape_def list_all_length)
  have "weights ! i = Softmax (map2 add_mask
          (map (\<lambda>k. dot (query ! i) k / sqrt (real (length (query ! i)))) key)
          (build_attention_mask ! i))"
    using w shape len ij build_attention_mask_shape
    by (auto simp: sdp_weights_def Let_def has_shape_def)
  moreover have "build_attention_mask ! i ! j = NegInf"
    using ij by (simp add: build_attention_mask_entry)
  ultimately show ?thesis
    using len ij row by (simp add: Softmax_masked_entry)
qed

lemma sdp_weights_defined:
  assumes "length query = 77" and "length key = 77"
  shows "\<exists>weights. sdp_weights query key (Some build_attention_mask) = Some weights"
  using assms build_attention_mask_shape by (simp add: sdp_weights_def Let_def)

text \<open>
  C7. \<^verbatim>\<open>build_attention_mask\<close> holds \<open>0\<close> where the row index is at least the column
  index and \<open>-\<infinity>\<close> elsewhere. In an attention block built with \<^verbatim>\<open>use_mask\<close>, for
  every batch entry \<open>b\<close> and head \<open>h\<close>, the weight after the softmax from position \<open>i\<close>
  to a later position \<open>j\<close> is zero.
\<close>

theorem causal_mask_zero_weight:
  assumes w: "attention_weights P num_heads bias True queries keys values = Some weights"
    and b: "b < length weights" and h: "h < length (weights ! b)"
    and ij: "i < j" "j < 77"
  shows "weights ! b ! h ! i ! j = 0 \<and>
         (\<forall>r c. r < 77 \<and> c < 77 \<longrightarrow>
            build_attention_mask ! r ! c = (if r \<ge> c then Fin 0 else NegInf))"
proof
  obtain q k v where qkv: "attention_heads P num_heads bias queries keys values = Some (q, k, v)"
    and all: "those (map (\<lambda>(qb, kb, vb).
                those (map (\<lambda>(qh, kh, vh). sdp_weights qh kh (Some build_attention_mask))
                       (zip3 qb kb vb))) (zip3 q k v)) = Some weights"
    using w by (auto simp: attention_weights_def split: Option.bind_splits)
  let ?inner = "\<lambda>(qb, kb, vb). those (map (\<lambda>(qh, kh, vh).
                   sdp_weights qh kh (Some build_attention_mask)) (zip3 qb kb vb))"
  have lb: "b < length (zip3 q k v)"
    using those_Some_length [OF all] b by simp
  have "map ?inner (zip3 q k v) ! b = Some (weights ! b)"
    using those_Some_nth [OF all] lb by simp
  then have inner: "?inner (zip3 q k v ! b) = Some (weights ! b)"
    using lb by simp
  obtain qb kb vb where zb: "zip3 q k v ! b = (qb, kb, vb)"
    by (cases "zip3 q k v ! b") auto
  let ?f = "\<lambda>(qh, kh, vh). sdp_weights qh kh (Some build_attention_mask)"
  have heads: "those (map ?f (zip3 qb kb vb)) = Some (weights ! b)"
    using inner zb by simp
  have lh: "h < length (zip3 qb kb vb)"
    using those_Some_length [OF heads] h by simp
  have "map ?f (zip3 qb kb vb) ! h = Some (weights ! b ! h)"
    using those_Some_nth [OF heads] lh by simp
  then have "?f (zip3 qb kb vb ! h) = Some (weights ! b ! h)"
    using lh by simp
  then obtain qh kh where "sdp_weights qh kh (Some build_attention_mask) = Some (weights ! b ! h)"
    by (cases "zip3 qb kb vb ! h") auto
  then show "weights ! b ! h ! i ! j = 0"
    using ij by (rule sdp_weights_causal)
  show "\<forall>r c. r < 77 \<and> c < 77 \<longrightarrow>
          build_attention_mask ! r ! c = (if r \<ge> c then Fin 0 else NegInf)"
    by (simp add: build_attention_mask_entry)
qed


lemma those_replicate: "those (replicate n (Some x)) = Some (replicate n x)"
  by (induction n) auto

lemma transpose_replicate_Nil: "transpose (replicate n []) = []"
  by (induction n) auto

lemma transpose_replicate_singleton: "0 < n \<Longrightarrow> transpose (replicate n [x]) = [replicate n x]"
proof -
  assume "0 < n"
  then obtain m where n: "n = Suc m" by (cases n) auto
  have heads: "concat (map (case_list [] (\<lambda>h t. [h])) (replicate m [x])) = replicate m x"
    by (induction m) auto
  have tails: "concat (map (case_list [] (\<lambda>h t. [t])) (replicate m [x])) = replicate m []"
    by (induction m) auto
  show ?thesis
    using transpose_replicate_Nil [of "Suc m"] by (simp add: n heads tails)
qed

lemma heads77:
  "attention_heads unit_params 1 True [replicate 77 [1]] [replicate 77 [1]] [replicate 77 [1]]
     = Some ([[replicate 77 [1]]], [[replicate 77 [1]]], [[replicate 77 [1]]])"
  by (simp add: attention_heads_def unit_params_def Linear_def dot_def split_heads_def
      reshape_B_L_n_def split_last_def those_replicate transpose_replicate_singleton)

theorem causal_mask_zero_weight_witness:
  "\<exists>weights.
     attention_weights unit_params 1 True True [replicate 77 [1]] [replicate 77 [1]] [replicate 77 [1]]
       = Some weights \<and> weights ! 0 ! 0 ! 3 ! 5 = 0"
proof -
  obtain w where w: "sdp_weights (replicate 77 [1]) (replicate 77 [1]) (Some build_attention_mask) = Some w"
    using sdp_weights_defined [of "replicate 77 [1]" "replicate 77 [1]"] by auto
  have aw: "attention_weights unit_params 1 True True [replicate 77 [1]] [replicate 77 [1]]
      [replicate 77 [1]] = Some [[w]]"
    by (simp add: attention_weights_def heads77 zip3_def w)
  have "[[w]] ! 0 ! 0 ! 3 ! 5 = 0 \<and>
         (\<forall>r c. r < 77 \<and> c < 77 \<longrightarrow>
            build_attention_mask ! r ! c = (if r \<ge> c then Fin 0 else NegInf))"
    by (rule causal_mask_zero_weight [OF aw]) simp_all
  with aw show ?thesis by blast
qed

subsection \<open>The bottleneck shortcut\<close>

lemma bottleneck_shortcut_branches:
  assumes "1 \<le> stride"
  shows "bottleneck_shortcut ops inplanes planes stride input =
    (if stride = 1 \<and> inplanes = planes * 4 then input
     else GroupNorm ops ''downsample_1''
            (Convolution2D ops ''downsample_0'' 1 (planes * 4) 0 (MaxPool2D ops stride input)))"
  using assms by (auto simp: bottleneck_shortcut_def Let_def)

lemma bottleneck_out1_shape:
  assumes "1 \<le> stride"
  shows "bottleneck_out1 shape_ops planes stride (Some [b, c, h, w])
     = Some [b, planes * 4, h div stride, w div stride]"
  using assms by (auto simp: bottleneck_out1_def shape_ops_def Let_def)

lemma bottleneck_shortcut_shape:
  assumes "1 \<le> stride" and "stride = 1 \<and> inplanes = planes * 4 \<longrightarrow> c = inplanes"
  shows "bottleneck_shortcut shape_ops inplanes planes stride (Some [b, c, h, w])
     = Some [b, planes * 4, h div stride, w div stride]"
  using assms by (auto simp: bottleneck_shortcut_def shape_ops_def Let_def)

lemma bottleneck_shape:
  assumes "1 \<le> stride" and "stride = 1 \<and> inplanes = planes * 4 \<longrightarrow> c = inplanes"
  shows "bottleneck shape_ops inplanes planes stride (Some [b, c, h, w])
     = Some [b, planes * 4, h div stride, w div stride]"
  using assms
  by (simp add: bottleneck_def Let_def bottleneck_out1_shape bottleneck_shortcut_shape)
     (simp add: shape_ops_def)

lemma make_layer_tail_shape:
  "fold (\<lambda>i x. bottleneck shape_ops (4 * inplanes) planes 1 x) is (Some [b, planes * 4, h, w])
     = Some [b, planes * 4, h, w]"
proof (induction "is")
  case Nil
  then show ?case by simp
next
  case (Cons i "is")
  have "bottleneck shape_ops (4 * inplanes) planes 1 (Some [b, planes * 4, h, w])
      = Some [b, planes * 4, h div 1, w div 1]"
    by (rule bottleneck_shape) auto
  with Cons show ?case by simp
qed

lemma make_layer_shape:
  assumes "1 < blocks" and "1 \<le> stride"
    and "stride = 1 \<and> inplanes = planes * 4 \<longrightarrow> c = inplanes"
  shows "\<exists>layer. make_layer (\<lambda>i. shape_ops) inplanes planes blocks stride = Inr layer \<and>
           layer (Some [b, c, h, w]) = Some [b, planes * 4, h div stride, w div stride]"
  using assms
  by (simp add: make_layer_def Let_def bottleneck_shape make_layer_tail_shape)

text \<open>
  C6. For a bottleneck block with a stride of at least 1: when \<open>stride = 1\<close> and
  \<open>inplanes = planes * 4\<close> the shortcut added before the last ReLU is the block's input,
  otherwise it is the input after the pooling by the stride, the 1x1 convolution to
  \<open>planes * 4\<close> channels and the normalization; the output is the ReLU of the sum of
  the main path and the shortcut. On an input of shape \<open>(b, c, h, w)\<close>, where \<open>c\<close> is
  \<open>inplanes\<close> when the shortcut is the input itself, the shortcut and the main path
  have the same shape at the addition, \<open>(b, planes * 4, h div stride, w div stride)\<close>.
\<close>

theorem bottleneck_shortcut_rule:
  assumes "1 \<le> stride"
  shows "bottleneck ops inplanes planes stride input =
           Relu ops (Add ops (bottleneck_out1 ops planes stride input)
             (if stride = 1 \<and> inplanes = planes * 4 then input
              else GroupNorm ops ''downsample_1''
                     (Convolution2D ops ''downsample_0'' 1 (planes * 4) 0
                        (MaxPool2D ops stride input)))) \<and>
         ((stride = 1 \<and> inplanes = planes * 4 \<longrightarrow> c = inplanes) \<longrightarrow>
            bottleneck_shortcut shape_ops inplanes planes stride (Some [b, c, h, w])
              = bottleneck_out1 shape_ops planes stride (Some [b, c, h, w]) \<and>
            bottleneck_out1 shape_ops planes stride (Some [b, c, h, w])
              = Some [b, planes * 4, h div stride, w div stride])"
proof (intro conjI impI)
  show "bottleneck ops inplanes planes stride input =
           Relu ops (Add ops (bottleneck_out1 ops planes stride input)
             (if stride = 1 \<and> inplanes = planes * 4 then input
              else GroupNorm ops ''downsample_1''
                     (Convolution2D ops ''downsample_0'' 1 (planes * 4) 0
                        (MaxPool2D ops stride input))))"
    using assms by (simp add: bottleneck_def Let_def bottleneck_shortcut_branches)
next
  assume "stride = 1 \<and> inplanes = planes * 4 \<longrightarrow> c = inplanes"
  with assms show "bottleneck_shortcut shape_ops inplanes planes stride (Some [b, c, h, w])
      = bottleneck_out1 shape_ops planes stride (Some [b, c, h, w])"
    by (simp only: bottleneck_out1_shape bottleneck_shortcut_shape)
next
  show "bottleneck_out1 shape_ops planes stride (Some [b, c, h, w])
      = Some [b, planes * 4, h div stride, w div stride]"
    using assms by (rule bottleneck_out1_shape)
qed

theorem bottleneck_shortcut_rule_witness:
  "bottleneck shape_ops 256 64 1 (Some [1, 256, 56, 56]) = Some [1, 256, 56, 56] \<and>
   bottleneck_shortcut shape_ops 256 64 1 (Some [1, 256, 56, 56]) = Some [1, 256, 56, 56] \<and>
   bottleneck shape_ops 64 128 2 (Some [1, 256, 56, 56]) = Some [1, 512, 28, 28] \<and>
   bottleneck_shortcut shape_ops 64 128 2 (Some [1, 256, 56, 56])
     = bottleneck_out1 shape_ops 128 2 (Some [1, 256, 56, 56])"
  using bottleneck_shortcut_rule [of 1 shape_ops 256 64 "Some [1, 256, 56, 56]" 256 1 56 56]
    bottleneck_shortcut_rule [of 2 shape_ops 64 128 "Some [1, 256, 56, 56]" 256 1 56 56]
  by (simp add: shape_ops_def)

subsection \<open>The norm block\<close>

lemma reduce_list_scalars:
  "reduce_list f (Sc a # map Sc xs) = Some (Sc (foldl f a xs))"
  by (induction xs arbitrary: a) auto

lemma foldl_plus: "foldl (+) a xs = a + sum_list xs" for a :: real
  by (induction xs arbitrary: a) auto

lemma foldl_max: "foldl max a xs = Max (set (a # xs))" for a :: real
proof -
  have "foldl max a xs = fold max xs a"
    by (simp add: foldl_conv_fold max.commute)
  then show ?thesis
    by (simp only: Max.set_eq_fold)
qed

lemma entries_vector: "entries (Ar (map Sc xs)) = xs"
  by (induction xs) auto

lemma tmap_vector: "tmap f (Ar (map Sc xs)) = Ar (map Sc (map f xs))"
  by simp

lemma ndim_vector: "xs \<noteq> [] \<Longrightarrow> ndim (Ar (map Sc xs)) = 1"
  by (cases xs) auto

lemma reduce_vector:
  assumes "xs \<noteq> []" and "axis = None \<or> axis = Some 0 \<or> axis = Some (- 1)"
  shows "reduce f axis False (Ar (map Sc xs)) = Some (Sc (foldl f (hd xs) (tl xs)))"
proof -
  obtain a ys where xs: "xs = a # ys" using assms(1) by (cases xs) auto
  have r: "reduce_list f (map Sc xs) = Some (Sc (foldl f (hd xs) (tl xs)))"
    by (simp add: xs reduce_list_scalars)
  have n: "ndim (Ar (map Sc xs)) = 1"
    using assms(1) by (rule ndim_vector)
  from assms(2) consider "axis = None" | "axis = Some 0" | "axis = Some (- 1)" by blast
  then show ?thesis
  proof cases
    case 1
    then show ?thesis by (simp only: reduce_def entries_vector r) simp
  next
    case 2
    then show ?thesis by (simp add: reduce_def n r del: reduce_list.simps)
  next
    case 3
    then show ?thesis by (simp add: reduce_def n r del: reduce_list.simps)
  qed
qed

lemma Sum_vector:
  assumes "xs \<noteq> []" and "axis = None \<or> axis = Some 0 \<or> axis = Some (- 1)"
  shows "Sum axis False (Ar (map Sc xs)) = Some (Sc (sum_list xs))"
proof -
  obtain a ys where xs: "xs = a # ys" using assms(1) by (cases xs) auto
  show ?thesis
    using reduce_vector [OF assms, of "(+)"] by (simp add: Sum_def xs foldl_plus)
qed

lemma Max_vector:
  assumes "xs \<noteq> []" and "axis = None \<or> axis = Some 0 \<or> axis = Some (- 1)"
  shows "Max_t axis False (Ar (map Sc xs)) = Some (Sc (Max (set xs)))"
proof -
  obtain a ys where xs: "xs = a # ys" using assms(1) by (cases xs) auto
  show ?thesis
    using reduce_vector [OF assms, of max] foldl_max [of a ys] by (simp add: Max_t_def xs)
qed

text \<open>
  C9. The norm block of either file, for every axis and \<^verbatim>\<open>keepdim\<close> and on every input
  tensor: with \<open>p = 2\<close> it is the square root of the sum of the squares, with \<open>p = 1\<close>
  the sum of the absolute values, with \<open>p = "inf"\<close> the maximum of the absolute values,
  and with another integer \<open>p\<close> (not zero, for which \<^verbatim>\<open>1 / p\<close> raises) the sum of
  \<open>|x|\<^sup>p\<close> to the power \<open>1 / p\<close>. On a vector that is not empty, reduced along
  its one axis, these are the numbers \<open>sqrt (\<Sum> x\<^sup>2)\<close>, \<open>\<Sum> |x|\<close>, \<open>Max |x|\<close> and
  \<open>(\<Sum> |x|\<^sup>p) powr (1 / p)\<close>.
\<close>

theorem norm_formulas:
  fixes n :: int and xs :: "real list"
  assumes "n \<noteq> 0" and "n \<noteq> 1" and "n \<noteq> 2"
  shows
    "(\<forall>norm \<in> {norm_model, norm_mlx}.
        norm (PInt 2) axis keepdim
          = Inr (\<lambda>input. map_option (tmap sqrt) (Sum axis keepdim (tmap (\<lambda>x. x ^ 2) input))) \<and>
        norm (PInt 1) axis keepdim = Inr (\<lambda>input. Sum axis keepdim (tmap abs input)) \<and>
        norm (PStr ''inf'') axis keepdim = Inr (\<lambda>input. Max_t axis keepdim (tmap abs input)) \<and>
        norm (PInt n) axis keepdim
          = Inr (\<lambda>input. map_option (tmap (\<lambda>x. x powr (1 / real_of_int n)))
                          (Sum axis keepdim (tmap (\<lambda>x. \<bar>x\<bar> powi n) input)))) \<and>
     (xs \<noteq> [] \<and> (axis = None \<or> axis = Some 0 \<or> axis = Some (- 1)) \<longrightarrow>
        map_option (tmap sqrt) (Sum axis False (tmap (\<lambda>x. x ^ 2) (Ar (map Sc xs))))
          = Some (Sc (sqrt (\<Sum>x\<leftarrow>xs. x ^ 2))) \<and>
        Sum axis False (tmap abs (Ar (map Sc xs))) = Some (Sc (\<Sum>x\<leftarrow>xs. \<bar>x\<bar>)) \<and>
        Max_t axis False (tmap abs (Ar (map Sc xs))) = Some (Sc (Max (abs ` set xs))) \<and>
        map_option (tmap (\<lambda>x. x powr (1 / real_of_int n)))
            (Sum axis False (tmap (\<lambda>x. \<bar>x\<bar> powi n) (Ar (map Sc xs))))
          = Some (Sc ((\<Sum>x\<leftarrow>xs. \<bar>x\<bar> powi n) powr (1 / real_of_int n))))"
proof (intro conjI impI ballI)
  fix norm assume "norm \<in> {norm_model, norm_mlx}"
  then have norm: "norm = norm_model \<or> norm = norm_mlx" by simp
  show "norm (PInt 2) axis keepdim
      = Inr (\<lambda>input. map_option (tmap sqrt) (Sum axis keepdim (tmap (\<lambda>x. x ^ 2) input)))"
    using norm by (auto simp: norm_model_def norm_mlx_def)
  show "norm (PInt 1) axis keepdim = Inr (\<lambda>input. Sum axis keepdim (tmap abs input))"
    using norm by (auto simp: norm_model_def norm_mlx_def)
  show "norm (PStr ''inf'') axis keepdim = Inr (\<lambda>input. Max_t axis keepdim (tmap abs input))"
    using norm by (auto simp: norm_model_def norm_mlx_def)
  show "norm (PInt n) axis keepdim
      = Inr (\<lambda>input. map_option (tmap (\<lambda>x. x powr (1 / real_of_int n)))
                      (Sum axis keepdim (tmap (\<lambda>x. \<bar>x\<bar> powi n) input)))"
    using norm assms by (auto simp: norm_model_def norm_mlx_def)
next
  assume v: "xs \<noteq> [] \<and> (axis = None \<or> axis = Some 0 \<or> axis = Some (- 1))"
  then have ne: "map f xs \<noteq> []" for f :: "real \<Rightarrow> real" by simp
  have ax: "axis = None \<or> axis = Some 0 \<or> axis = Some (- 1)" using v by simp
  show "map_option (tmap sqrt) (Sum axis False (tmap (\<lambda>x. x ^ 2) (Ar (map Sc xs))))
      = Some (Sc (sqrt (\<Sum>x\<leftarrow>xs. x ^ 2)))"
    using Sum_vector [OF ne ax, of "\<lambda>x. x ^ 2"] by (simp add: comp_def)
  show "Sum axis False (tmap abs (Ar (map Sc xs))) = Some (Sc (\<Sum>x\<leftarrow>xs. \<bar>x\<bar>))"
    using Sum_vector [OF ne ax, of abs] by (simp add: comp_def)
  show "Max_t axis False (tmap abs (Ar (map Sc xs))) = Some (Sc (Max (abs ` set xs)))"
    using Max_vector [OF ne ax, of abs] by (simp add: comp_def)
  show "map_option (tmap (\<lambda>x. x powr (1 / real_of_int n)))
            (Sum axis False (tmap (\<lambda>x. \<bar>x\<bar> powi n) (Ar (map Sc xs))))
          = Some (Sc ((\<Sum>x\<leftarrow>xs. \<bar>x\<bar> powi n) powr (1 / real_of_int n)))"
    using Sum_vector [OF ne ax, of "\<lambda>x. \<bar>x\<bar> powi n"] by (simp add: comp_def)
qed


theorem norm_formulas_witness:
  "norm_model (PInt 3) (Some (- 1)) False
     = Inr (\<lambda>input. map_option (tmap (\<lambda>x. x powr (1 / real_of_int 3)))
                     (Sum (Some (- 1)) False (tmap (\<lambda>x. \<bar>x\<bar> powi 3) input))) \<and>
   norm_mlx (PInt 2) (Some (- 1)) False
     = Inr (\<lambda>input. map_option (tmap sqrt) (Sum (Some (- 1)) False (tmap (\<lambda>x. x ^ 2) input))) \<and>
   map_option (tmap sqrt) (Sum (Some (- 1)) False (tmap (\<lambda>x. x ^ 2) (Ar (map Sc [3, - 4]))))
     = Some (Sc (sqrt 25)) \<and>
   Sum (Some (- 1)) False (tmap abs (Ar (map Sc [3, - 4]))) = Some (Sc 7) \<and>
   Max_t (Some (- 1)) False (tmap abs (Ar (map Sc [3, - 4]))) = Some (Sc 4)"
  using norm_formulas [of 3 "Some (- 1)" False "[3, - 4]"] by simp

subsection \<open>The logits of the model\<close>

lemma matmul_rows: "r \<in> set (matmul a b) \<Longrightarrow> length r = length (transpose b)"
  by (auto simp: matmul_def)

lemma transpose_entry:
  assumes rect: "\<forall>r \<in> set m. length r = n" and i: "i < length m" and j: "j < length (m ! i)"
  shows "j < length (transpose m) \<and> i < length (transpose m ! j) \<and> transpose m ! j ! i = m ! i ! j"
proof -
  have jn: "j < n" using rect i j by auto
  have "transpose m = map (\<lambda>c. map (\<lambda>r. m ! r ! c) [0..<length m]) [0..<n]"
  proof (rule transpose_rectangle)
    show "m = [] \<Longrightarrow> n = 0" using i by simp
    show "\<And>k. k < length m \<Longrightarrow> length (m ! k) = n" using rect by simp
  qed
  then show ?thesis using i jn by simp
qed

text \<open>
  C5. Whenever \<^verbatim>\<open>clip\<close> of \<^verbatim>\<open>model.py\<close> returns its outputs, they are computed from the
  two normalized embeddings: \<open>logits_per_image\<close> is \<open>exp(logit_scale)\<close> times the
  product of the image embeddings with the transposed text embeddings, and
  \<open>logits_per_text\<close> is the transpose of \<open>logits_per_image\<close>, so entry \<open>(j, i)\<close> of the
  one is entry \<open>(i, j)\<close> of the other.
\<close>

theorem clip_logits_transposed:
  assumes "clip image_features ln_final tokens text_projection logit_scale = Inr (Some out)"
  shows "\<exists>image_embeds text_embeds.
           clip_embeds image_features ln_final tokens text_projection
             = Inr (Some (image_embeds, text_embeds)) \<and>
           logits_per_image out
             = map (map (\<lambda>x. exp logit_scale * x)) (matmul image_embeds (transpose text_embeds)) \<and>
           logits_per_text out = transpose (logits_per_image out) \<and>
           (\<forall>i j. i < length (logits_per_image out) \<and> j < length (logits_per_image out ! i) \<longrightarrow>
              j < length (logits_per_text out) \<and> i < length (logits_per_text out ! j) \<and>
              logits_per_text out ! j ! i = logits_per_image out ! i ! j)"
proof -
  obtain image_embeds text_embeds where
    e: "clip_embeds image_features ln_final tokens text_projection
          = Inr (Some (image_embeds, text_embeds))"
    and out: "out = \<lparr>logits_per_image = map (map (\<lambda>x. exp logit_scale * x))
                        (matmul image_embeds (transpose text_embeds)),
                     logits_per_text = transpose (map (map (\<lambda>x. exp logit_scale * x))
                        (matmul image_embeds (transpose text_embeds)))\<rparr>"
    using assms by (auto simp: clip_def Let_def split: sum.splits)
  let ?per_image = "map (map (\<lambda>x. exp logit_scale * x))
                      (matmul image_embeds (transpose text_embeds))"
  have rect: "\<forall>r \<in> set ?per_image. length r = length (transpose (transpose text_embeds))"
    by (auto dest: matmul_rows)
  have entries: "\<forall>i j. i < length ?per_image \<and> j < length (?per_image ! i) \<longrightarrow>
          j < length (transpose ?per_image) \<and> i < length (transpose ?per_image ! j) \<and>
          transpose ?per_image ! j ! i = ?per_image ! i ! j"
    using transpose_entry [OF rect] by blast
  have lpi: "logits_per_image out = ?per_image" and lpt: "logits_per_text out = transpose ?per_image"
    by (simp_all add: out)
  show ?thesis
  proof (intro exI conjI)
    show "clip_embeds image_features ln_final tokens text_projection
            = Inr (Some (image_embeds, text_embeds))" by (rule e)
    show "logits_per_image out = ?per_image" by (rule lpi)
    show "logits_per_text out = transpose (logits_per_image out)" by (simp only: lpi lpt)
    show "\<forall>i j. i < length (logits_per_image out) \<and> j < length (logits_per_image out ! i) \<longrightarrow>
              j < length (logits_per_text out) \<and> i < length (logits_per_text out ! j) \<and>
              logits_per_text out ! j ! i = logits_per_image out ! i ! j"
      unfolding lpi lpt by (rule entries)
  qed
qed

theorem clip_logits_transposed_witness:
  "clip [[1, 0], [0, 1]] [[[0, 1], [5, 5]]] [[3, 9]] [[1, 0], [0, 1]] 0
     = Inr (Some \<lparr>logits_per_image = [[0], [1]], logits_per_text = [[0, 1]]\<rparr>)"
proof -
  have t: "transpose [[1, 0], [0, 1::real]] = [[1, 0], [0, 1]]"
          "transpose [[0, 1::real]] = [[0], [1]]" "transpose [[0], [1::real]] = [[0, 1]]"
    by simp_all
  have e: "clip_embeds [[1, 0], [0, 1]] [[[0, 1], [5, 5]]] [[3, 9]] [[1, 0], [0, 1]]
      = Inr (Some ([[1, 0], [0, 1]], [[0, 1]]))"
    by (simp add: clip_embeds_def norm_model_def eot_creator_def ArgMax_def getitem_None_i_0_def
        matmul_def dot_def t of_mat_def Sum_def reduce_def Let_def div_keepdim_def)
  have c: "clip [[1, 0], [0, 1]] [[[0, 1], [5, 5]]] [[3, 9]] [[1, 0], [0, 1]] 0
      = Inr (Some \<lparr>logits_per_image = [[0], [1]], logits_per_text = [[0, 1]]\<rparr>)"
    by (simp add: clip_def e matmul_def dot_def t Let_def)
  from clip_logits_transposed [OF c] show ?thesis
    using c by simp
qed

subsection \<open>The residual attention block\<close>

lemma residual_attention_block_output:
  assumes "residual_attention_block P d_model n_head use_attn_mask = Inr blk"
  shows "\<exists>attn_block. multi_head_attention (attn P) d_model n_head use_attn_mask = Inr attn_block \<and>
           (\<forall>x m. blk x m =
              (case attn_block (ln_1 P x) m of
                 None \<Rightarrow> None
               | Some a \<Rightarrow> Some (add3 x (mlp_resblock (mlp_weights P) d_model
                                           (ln_2 P (add3 x a))))))"
  using assms
  by (auto simp: residual_attention_block_def Let_def split: if_splits sum.splits option.splits
      Option.bind_splits)

lemma encode_layer_output:
  "\<exists>blk attn_block.
     encode_layer P cfg use_mask = Inr blk \<and>
     attention (self_attn P) (hidden_size cfg) (num_attention_heads cfg) True use_mask
       = Inr attn_block \<and>
     (\<forall>x. blk x =
        (case attn_block (layer_norm1 P x) (layer_norm1 P x) (layer_norm1 P x) of
           None \<Rightarrow> None
         | Some a \<Rightarrow> Some (add3 (add3 x a) (mlp (mlp_fc P) cfg (layer_norm2 P (add3 x a))))))"
  by (auto simp: encode_layer_def attention_def Let_def split: option.splits Option.bind_splits)

lemma ScaledDotProduct4_unit: "ScaledDotProduct4 [[[[1]]]] [[[[1]]]] [[[[1]]]] None = Some [[[[1]]]]"
  by (simp add: ScaledDotProduct4_def ScaledDotProduct3_def ScaledDotProduct_def zip3_def
      sdp_weights_def Softmax_def matmul_def dot_def)

text \<open>
  C2. A residual attention block computes \<open>x + Attn(LN1(x)) + MLP(LN2(x + Attn(LN1(x))))\<close>.
  \<^verbatim>\<open>encode_layer\<close> of \<^verbatim>\<open>model_mlx.py\<close> does (lemma \<open>encode_layer_output\<close>).
  \<^verbatim>\<open>residual_attention_block\<close> of \<^verbatim>\<open>model.py\<close> returns \<open>x + MLP(LN2(x + Attn(LN1(x))))\<close>
  (lemma \<open>residual_attention_block_output\<close>): on the input \<open>0\<close>, with an attention output
  of \<open>1\<close> and an MLP output of \<open>5\<close>, it returns \<open>5\<close> where the claim and
  \<^verbatim>\<open>encode_layer\<close> give \<open>6\<close>.
\<close>

theorem residual_attention_block_drops_attention:
  "\<exists>blk attn_block layer.
     residual_attention_block unit_block 1 1 False = Inr blk \<and>
     multi_head_attention (attn unit_block) 1 1 False = Inr attn_block \<and>
     attn_block (ln_1 unit_block [[[0]]]) [] = Some [[[1]]] \<and>
     mlp_resblock (mlp_weights unit_block) 1 (ln_2 unit_block (add3 [[[0]]] [[[1]]])) = [[[5]]] \<and>
     blk [[[0]]] [] = Some [[[5]]] \<and>
     add3 (add3 [[[0]]] [[[1]]]) [[[5]]] = [[[6]]] \<and>
     encode_layer unit_layer \<lparr>hidden_size = 1, intermediate_size = 4, num_attention_heads = 1\<rparr> False
       = Inr layer \<and>
     layer [[[0]]] = Some [[[6]]]"
  by (simp add: residual_attention_block_def multi_head_attention_def unit_block_def Linear_def
      dot_def reshape_B_L_n_def split_last_def split_heads_def ScaledDotProduct4_unit
      merge_heads_def add3_def mlp_resblock_def encode_layer_def attention_def unit_layer_def
      attention_heads_def mlp_def)

subsection \<open>Divisibility of the hidden size by the number of heads\<close>

lemma multi_head_attention_asserts:
  "d_model mod n_head \<noteq> 0 \<Longrightarrow> \<exists>e. multi_head_attention P d_model n_head use_attn_mask = Inl e"
  by (simp add: multi_head_attention_def)

lemma residual_attention_block_asserts:
  "d_model mod n_head \<noteq> 0 \<Longrightarrow>
   \<exists>e. residual_attention_block P d_model n_head use_attn_mask = Inl e"
  by (simp add: residual_attention_block_def)

lemma attention_never_raises: "\<exists>blk. attention P dims num_heads bias use_mask = Inr blk"
  by (simp add: attention_def)

lemma encode_layer_never_raises: "\<exists>blk. encode_layer P cfg use_mask = Inr blk"
  by (simp add: encode_layer_def attention_def)

text \<open>
  C8. An attention component whose hidden size is not a multiple of its number of heads
  fails when it is built. \<^verbatim>\<open>multi_head_attention\<close> and \<^verbatim>\<open>residual_attention_block\<close> of
  \<^verbatim>\<open>model.py\<close> do, by their assertion. \<^verbatim>\<open>attention\<close> of \<^verbatim>\<open>model_mlx.py\<close>, the one the
  encoder layers use, has no such check: with a hidden size of 3 and 2 heads it is built,
  and so is the \<^verbatim>\<open>encode_layer\<close> around it, and the failure comes when the block is
  evaluated, from the reshape into heads. \<^verbatim>\<open>multi_head_attention_forward\<close>, whose
  assertion is commented out, fails at evaluation in the same way.
\<close>

theorem attention_builds_with_indivisible_heads:
  "(3::int) mod 2 \<noteq> 0 \<and>
   multi_head_attention P 3 2 False = Inl AssertionError \<and>
   (\<exists>blk. attention identity3 3 2 False False = Inr blk \<and>
          blk [[[1, 2, 3]]] [[[1, 2, 3]]] [[[1, 2, 3]]] = None) \<and>
   (\<exists>layer. encode_layer
              \<lparr>layer_norm1 = (\<lambda>x. x), self_attn = identity3, layer_norm2 = (\<lambda>x. x), mlp_fc = F\<rparr>
              \<lparr>hidden_size = 3, intermediate_size = 12, num_attention_heads = 2\<rparr> False = Inr layer \<and>
          layer [[[1, 2, 3]]] = None) \<and>
   multi_head_attention_forward 3 2 0 [[[1, 2, 3]]] [[[1, 2, 3]]] [[[1, 2, 3]]]
       [[1, 0, 0], [0, 1, 0], [0, 0, 1]] [[1, 0, 0], [0, 1, 0], [0, 0, 1]]
       [[1, 0, 0], [0, 1, 0], [0, 0, 1]] [0, 0, 0, 0, 0, 0, 0, 0, 0]
       [[1, 0, 0], [0, 1, 0], [0, 0, 1]] [0, 0, 0] = None"
  by (simp add: multi_head_attention_def attention_def encode_layer_def attention_heads_def
      identity3_def Linear_def Linear_nobias_def dot_def split_heads_def reshape_B_L_n_def
      split_last_def multi_head_attention_forward_def mhaf_heads_def shape_2_def shape_1_def
      matmul3_def matmul_def add_bias3_def scale3_def slice_def reshape_heads_def)

subsection \<open>Attention pooling\<close>

lemma attention_pool2d_x_layout:
  assumes x: "attention_pool2d_x input positional_embedding = Some x"
    and f: "flatten = Transpose_2_0_1 (Flatten_2 input)"
  shows "length x = length flatten + 1 \<and>
         (\<forall>t < length flatten.
            x ! t = map (\<lambda>v. map2 (+) v (positional_embedding ! t)) (flatten ! t)) \<and>
         x ! length flatten
           = map (\<lambda>v. map2 (+) v (positional_embedding ! length flatten)) (hd (Mean_0 flatten))"
proof -
  have len: "length positional_embedding = length flatten + 1"
    using x by (auto simp: attention_pool2d_x_def add_positional_def Let_def f Mean_0_def
        split: if_splits)
  have xe: "x = map (\<lambda>(rows, p). map (\<lambda>v. map2 (+) v p) rows)
                  (zip (flatten @ Mean_0 flatten) positional_embedding)"
    using x by (auto simp: attention_pool2d_x_def add_positional_def Let_def f split: if_splits)
  have m: "length (Mean_0 flatten) = 1" by (simp add: Mean_0_def)
  have "length x = length flatten + 1" using len m by (simp add: xe)
  moreover have "x ! t = map (\<lambda>v. map2 (+) v (positional_embedding ! t)) (flatten ! t)"
    if "t < length flatten" for t
    using that len m by (simp add: xe nth_append)
  moreover have "x ! length flatten
      = map (\<lambda>v. map2 (+) v (positional_embedding ! length flatten)) (hd (Mean_0 flatten))"
    using len m by (simp add: xe nth_append Mean_0_def)
  ultimately show ?thesis by blast
qed

text \<open>
  C3. In \<^verbatim>\<open>attention_pool2d\<close> the spatial mean is the extra token at index 0 of the
  sequence and the only query of the attention call. The code concatenates
  \<^verbatim>\<open>[flatten, mean]\<close>, so the mean is the last token, and its query \<^verbatim>\<open>x[:1]\<close> is the
  first spatial position (lemma \<open>attention_pool2d_x_layout\<close>, at every size). On a feature
  map with two channels and 2x2 positions and a positional embedding of zeros, the
  sequence is the four positions followed by their mean \<open>[4, 40]\<close>, and the query of the
  attention call is the first position \<open>[1, 10]\<close>, whatever the weights.
\<close>

theorem attention_pool2d_queries_first_position:
  "attention_pool2d_x [[[[1, 3], [5, 7]], [[10, 30], [50, 70]]]]
       [[0, 0], [0, 0], [0, 0], [0, 0], [0, 0]]
     = Some [[[1, 10]], [[3, 30]], [[5, 50]], [[7, 70]], [[4, 40]]] \<and>
   Mean_0 (Transpose_2_0_1 (Flatten_2 [[[[1, 3], [5, 7]], [[10, 30], [50, 70]]]])) = [[[4, 40]]] \<and>
   attention_pool2d spacial_dim embed_dim num_heads [[[[1, 3], [5, 7]], [[10, 30], [50, 70]]]]
       q_proj_weight k_proj_weight v_proj_weight in_proj_bias out_proj_weight out_proj_bias
       [[0, 0], [0, 0], [0, 0], [0, 0], [0, 0]]
     = Option.bind
         (multi_head_attention_forward embed_dim num_heads 0
            [[[1, 10]]]
            [[[1, 10]], [[3, 30]], [[5, 50]], [[7, 70]], [[4, 40]]]
            [[[1, 10]], [[3, 30]], [[5, 50]], [[7, 70]], [[4, 40]]]
            q_proj_weight k_proj_weight v_proj_weight in_proj_bias out_proj_weight out_proj_bias)
         Squeeze_0"
proof -
  have t: "transpose [[1, 3, 5, 7], [10, 30, 50, 70::real]] = [[1, 10], [3, 30], [5, 50], [7, 70]]"
    "transpose [[[1, 10]], [[3, 30]], [[5, 50]], [[7, 70::real]]]
       = [[[1, 10], [3, 30], [5, 50], [7, 70]]]"
    "transpose [[[1, 10], [3, 30], [5, 50], [7, 70::real]]]
       = [[[1, 10]], [[3, 30]], [[5, 50]], [[7, 70]]]"
    "transpose [[1, 10], [3, 30], [5, 50], [7, 70::real]] = [[1, 3, 5, 7], [10, 30, 50, 70]]"
    by simp_all
  have f: "Transpose_2_0_1 (Flatten_2 [[[[1, 3], [5, 7]], [[10, 30], [50, 70]]]])
      = [[[1, 10]], [[3, 30]], [[5, 50]], [[7, 70]]]"
    by (simp add: Transpose_2_0_1_def Flatten_2_def t)
  have m: "Mean_0 [[[1, 10]], [[3, 30]], [[5, 50]], [[7, 70]]] = [[[4, 40]]]"
    by (simp add: Mean_0_def t)
  have x: "attention_pool2d_x [[[[1, 3], [5, 7]], [[10, 30], [50, 70]]]]
       [[0, 0], [0, 0], [0, 0], [0, 0], [0, 0]]
     = Some [[[1, 10]], [[3, 30]], [[5, 50]], [[7, 70]], [[4, 40]]]"
    by (simp add: attention_pool2d_x_def f m add_positional_def)
  show ?thesis
    by (simp add: x f m attention_pool2d_def)
qed

subsection \<open>The scaling of the attention scores\<close>

lemma dot_scaled: "dot (map (\<lambda>a. a * c) q) k = c * dot q k"
proof -
  have "(\<Sum>(x, y)\<leftarrow>zip (map (\<lambda>a. a * c) q) k. x * y) = c * (\<Sum>(x, y)\<leftarrow>zip q k. x * y)"
    by (induction q arbitrary: k) (auto simp: zip_Cons1 algebra_simps split: list.splits)
  then show ?thesis by (simp add: dot_def)
qed

lemma sdp_weights_scaled_queries:
  "sdp_weights (map (map (\<lambda>a. a * c)) query) key None
     = Some (map (\<lambda>q. Softmax (map (\<lambda>k. Fin (c * dot q k / sqrt (real (length q)))) key)) query)"
proof -
  have "map (\<lambda>row. Softmax (map Fin row))
          (map (\<lambda>q. map (\<lambda>k. dot q k / sqrt (real (length q))) key) (map (map (\<lambda>a. a * c)) query))
      = map (\<lambda>q. Softmax (map (\<lambda>k. Fin (c * dot q k / sqrt (real (length q)))) key)) query"
    by (simp only: map_map comp_def dot_scaled length_map)
  then show ?thesis
    by (simp only: sdp_weights_def Let_def option.case)
qed

lemma powr_neg_half:
  assumes "0 < x"
  shows "x powr (- (1 / 2)) = 1 / sqrt x"
proof -
  have "x powr (- (1 / 2)) = inverse (x powr (1 / 2))"
    by (rule powr_minus)
  also have "x powr (1 / 2) = sqrt x"
    using assms by (simp add: powr_half_sqrt)
  finally show ?thesis
    by (simp add: inverse_eq_divide)
qed

lemma sdp_weights_scaled_twice:
  assumes "0 < d" and "\<forall>q \<in> set query. length q = d"
  shows "sdp_weights (map (map (\<lambda>a. a * real d powr (- 0.5))) query) key None
     = Some (map (\<lambda>q. Softmax (map (\<lambda>k. Fin (dot q k / real d)) key)) query)"
proof -
  have "real d powr (- (1 / 2)) * s / sqrt (real d) = s / real d" for s
    using assms(1) by (simp add: powr_neg_half)
  then show ?thesis
    using assms(2) by (simp add: sdp_weights_scaled_queries)
qed

lemma Softmax_differ: "Softmax [Fin 1, Fin 0] \<noteq> Softmax [Fin 2, Fin 0]"
proof
  assume "Softmax [Fin 1, Fin 0] = Softmax [Fin 2, Fin 0]"
  then have "1 / (exp 1 + 1) = 1 / (exp 2 + (1::real))"
    by (simp add: Softmax_def)
  then have "exp (1::real) = exp 2"
    by (simp add: add_nonneg_eq_0_iff field_simps)
  then show False by simp
qed

text \<open>
  C4. The scores are divided by \<open>sqrt(head_dim)\<close> once. The attention primitive does it
  internally, and \<^verbatim>\<open>attention\<close> of \<^verbatim>\<open>model_mlx.py\<close> hands it the projected
  queries as they are. \<^verbatim>\<open>multi_head_attention_forward\<close> of \<^verbatim>\<open>model.py\<close> first multiplies
  the projected queries by \<^verbatim>\<open>head_dim ** -0.5\<close>, so its weights are
  \<open>softmax(Q K\<^sup>t / head_dim)\<close> (lemma \<open>sdp_weights_scaled_twice\<close>). With one head of
  width 4, the query \<open>[2, 0, 0, 0]\<close> and the keys \<open>[2, 0, 0, 0]\<close> and \<open>[0, 0, 0, 0]\<close>,
  under identity projections: the primitive receives the query \<open>[1, 0, 0, 0]\<close>, the
  weights are the softmax of \<open>[1, 0]\<close>, and the softmax of \<open>Q K\<^sup>t / sqrt 4 = [2, 0]\<close>,
  which \<^verbatim>\<open>attention\<close> computes on the same input, is different.
\<close>

theorem multi_head_attention_forward_scales_twice:
  "mhaf_heads 4 1 [[[2, 0, 0, 0]]] [[[2, 0, 0, 0]], [[0, 0, 0, 0]]]
       [[[1, 0, 0, 0]], [[0, 1, 0, 0]]]
       [[1, 0, 0, 0], [0, 1, 0, 0], [0, 0, 1, 0], [0, 0, 0, 1]]
       [[1, 0, 0, 0], [0, 1, 0, 0], [0, 0, 1, 0], [0, 0, 0, 1]]
       [[1, 0, 0, 0], [0, 1, 0, 0], [0, 0, 1, 0], [0, 0, 0, 1]]
       [0, 0, 0, 0, 0, 0, 0, 0, 0, 0, 0, 0]
     = Some ([[[1, 0, 0, 0]]], [[[2, 0, 0, 0], [0, 0, 0, 0]]], [[[1, 0, 0, 0], [0, 1, 0, 0]]]) \<and>
   mhaf_weights 4 1 [[[2, 0, 0, 0]]] [[[2, 0, 0, 0]], [[0, 0, 0, 0]]]
       [[[1, 0, 0, 0]], [[0, 1, 0, 0]]]
       [[1, 0, 0, 0], [0, 1, 0, 0], [0, 0, 1, 0], [0, 0, 0, 1]]
       [[1, 0, 0, 0], [0, 1, 0, 0], [0, 0, 1, 0], [0, 0, 0, 1]]
       [[1, 0, 0, 0], [0, 1, 0, 0], [0, 0, 1, 0], [0, 0, 0, 1]]
       [0, 0, 0, 0, 0, 0, 0, 0, 0, 0, 0, 0]
     = Some [[Softmax [Fin 1, Fin 0]]] \<and>
   map (\<lambda>k. Fin (dot [2, 0, 0, 0] k / sqrt 4)) [[2, 0, 0, 0], [0, 0, 0, 0]] = [Fin 2, Fin 0] \<and>
   Softmax [Fin 1, Fin 0] \<noteq> Softmax [Fin 2, Fin 0] \<and>
   attention_weights identity4 1 True False [[[2, 0, 0, 0]]] [[[2, 0, 0, 0], [0, 0, 0, 0]]]
       [[[1, 0, 0, 0], [0, 1, 0, 0]]]
     = Some [[[Softmax [Fin 2, Fin 0]]]]"
proof -
  have t: "transpose [[1, 0, 0, 0], [0, 1, 0, 0], [0, 0, 1, 0], [0, 0, 0, 1::real]]
             = [[1, 0, 0, 0], [0, 1, 0, 0], [0, 0, 1, 0], [0, 0, 0, 1]]"
    by code_simp
  have t2: "transpose [[[1::real, 0, 0, 0]]] = [[[1, 0, 0, 0]]]"
    "transpose [[[2::real, 0, 0, 0]], [[0, 0, 0, 0]]] = [[[2, 0, 0, 0], [0, 0, 0, 0]]]"
    "transpose [[[1::real, 0, 0, 0]], [[0, 1, 0, 0]]] = [[[1, 0, 0, 0], [0, 1, 0, 0]]]"
    "transpose [[[2::real, 0, 0, 0]]] = [[[2, 0, 0, 0]]]"
    "transpose [[[2::real, 0, 0, 0]], [[0, 0, 0, 0]]] = [[[2, 0, 0, 0], [0, 0, 0, 0]]]"
    "transpose [[[2::real, 0, 0, 0]], [[0, 0, 0, 0]]] = [[[2, 0, 0, 0], [0, 0, 0, 0]]]"
    by simp_all
  have h: "mhaf_heads 4 1 [[[2, 0, 0, 0]]] [[[2, 0, 0, 0]], [[0, 0, 0, 0]]]
       [[[1, 0, 0, 0]], [[0, 1, 0, 0]]]
       [[1, 0, 0, 0], [0, 1, 0, 0], [0, 0, 1, 0], [0, 0, 0, 1]]
       [[1, 0, 0, 0], [0, 1, 0, 0], [0, 0, 1, 0], [0, 0, 0, 1]]
       [[1, 0, 0, 0], [0, 1, 0, 0], [0, 0, 1, 0], [0, 0, 0, 1]]
       [0, 0, 0, 0, 0, 0, 0, 0, 0, 0, 0, 0]
     = Some ([[[1, 0, 0, 0]]], [[[2, 0, 0, 0], [0, 0, 0, 0]]], [[[1, 0, 0, 0], [0, 1, 0, 0]]])"
    apply (simp add: mhaf_heads_def shape_2_def shape_1_def t powr_neg_half)
    apply (simp add: matmul3_def matmul_def dot_def t add_bias3_def slice_def scale3_def
        reshape_heads_def split_last_def)
    done
  have w: "sdp_weights [[1, 0, 0, 0]] [[2, 0, 0, 0], [0, 0, 0, 0]] None
      = Some [Softmax [Fin 1, Fin 0]]"
    by (simp add: sdp_weights_def dot_def)
  have w2: "sdp_weights [[2, 0, 0, 0]] [[2, 0, 0, 0], [0, 0, 0, 0]] None
      = Some [Softmax [Fin 2, Fin 0]]"
    by (simp add: sdp_weights_def dot_def)
  have a: "attention_heads identity4 1 True [[[2, 0, 0, 0]]] [[[2, 0, 0, 0], [0, 0, 0, 0]]]
       [[[1, 0, 0, 0], [0, 1, 0, 0]]]
     = Some ([[[[2, 0, 0, 0]]]], [[[[2, 0, 0, 0], [0, 0, 0, 0]]]],
             [[[[1, 0, 0, 0], [0, 1, 0, 0]]]])"
    by (simp add: attention_heads_def identity4_def Linear_def dot_def split_heads_def
        reshape_B_L_n_def split_last_def)
  show ?thesis
    by (simp add: h mhaf_weights_def zip3_def w w2 a attention_weights_def dot_def Softmax_differ)
qed

end
